theory Spec2Isabelle
  imports Main "HOL-Library.Word" "HOL-Library.Option_ord"
begin

unbundle bit_operations_syntax

section \<open>The Wasm export handler of the indexer\<close>

text \<open>
  A shallow embedding of the handler \<open>wasm\<close> (the matcher \<open>match\<close>, the code-ID
  resolver \<open>getCodeId\<close> and the batch processor \<open>process\<close>).

  Conventions of the embedding.
  \<^item> A \<open>Uint8Array\<close> is a list of 8-bit words.
  \<^item> A JavaScript string is a \<open>string\<close>; a string that is not ASCII is represented by
    its UTF-8 encoding.
  \<^item> A JavaScript number that indexes or measures an array is a \<open>nat option\<close>, where
    \<open>None\<close> stands for \<open>undefined\<close> and for \<open>NaN\<close> (the result of
    arithmetic on \<open>undefined\<close>).
  \<^item> Block heights and times are \<open>BigInt\<close>s rendered as decimal strings in the source;
    they are \<open>int\<close> here. \<open>Number(...)\<close> of a height is taken to be exact, which
    it is below \<open>2^53\<close>.
  \<^item> A thrown exception is the \<open>Inl\<close> value of a sum.
  \<^item> The functions of third-party libraries and of modules outside this file
    (\<open>fromBase64\<close>, \<open>fromUtf8\<close>, \<open>toBech32\<close>, \<open>ContractInfo.decode\<close>,
    \<open>JSON.parse\<close>, the RPC client, the code registry, the transformers) are parameters,
    collected in records; every theorem holds for every such parameter.
\<close>

subsection \<open>Bytes, numbers and strings of JavaScript\<close>

type_synonym byte = "8 word"
type_synonym bytes = "byte list"

text \<open>A thrown value: an \<open>Error\<close> with its message, or something that is not an \<open>Error\<close>.\<close>

datatype error = Error string | NonError

text \<open>\<open>xs[i]\<close>: \<open>undefined\<close> out of range.\<close>

definition at :: "'a list \<Rightarrow> nat \<Rightarrow> 'a option" where
  "at xs i = (if i < length xs then Some (xs ! i) else None)"

text \<open>\<open>a + b\<close> and \<open>a < b\<close> where \<open>b\<close> may be \<open>undefined\<close>: the sum is \<open>NaN\<close>, and every
  comparison with \<open>NaN\<close> is false.\<close>

definition js_add :: "nat \<Rightarrow> nat option \<Rightarrow> nat option" where
  "js_add a b = (case b of None \<Rightarrow> None | Some n \<Rightarrow> Some (a + n))"

definition js_less :: "nat \<Rightarrow> nat option \<Rightarrow> bool" where
  "js_less a b = (case b of None \<Rightarrow> False | Some n \<Rightarrow> a < n)"

text \<open>\<open>ToIntegerOrInfinity\<close> on the arguments of \<open>slice\<close>: \<open>NaN\<close> becomes 0.\<close>

definition toInteger :: "nat option \<Rightarrow> nat" where
  "toInteger n = (case n of None \<Rightarrow> 0 | Some k \<Rightarrow> k)"

text \<open>\<open>xs.slice(start, fin)\<close> and \<open>xs.slice(start)\<close> of a typed array, for arguments that
  are not negative.\<close>

definition slice :: "'a list \<Rightarrow> nat option \<Rightarrow> nat option \<Rightarrow> 'a list" where
  "slice xs start fin =
     (let len = length xs;
          k = min (toInteger start) len;
          final = min (toInteger fin) len
      in take (final - k) (drop k xs))"

definition slice_from :: "'a list \<Rightarrow> nat option \<Rightarrow> 'a list" where
  "slice_from xs start = drop (min (toInteger start) (length xs)) xs"

text \<open>Decimal rendering of a number, and \<open>BigInt(...).toString()\<close>.\<close>

definition digit :: "nat \<Rightarrow> char" where
  "digit n = ''0123456789'' ! n"

fun decimal :: "nat \<Rightarrow> string" where
  "decimal n = (if 10 \<le> n then decimal (n div 10) @ [digit (n mod 10)] else [digit n])"

declare decimal.simps [simp del]

definition BigInt_toString :: "int \<Rightarrow> string" where
  "BigInt_toString i = (if 0 \<le> i then decimal (nat i) else CHR ''-'' # decimal (nat (- i)))"

text \<open>\<open>xs.join(sep)\<close>.\<close>

fun join :: "string \<Rightarrow> string list \<Rightarrow> string" where
  "join sep [] = []"
| "join sep [x] = x"
| "join sep (x # y # ys) = x @ sep @ join sep (y # ys)"

text \<open>\<open>bytes.join(',')\<close>: the canonical form of a storage key.\<close>

definition join_bytes :: "bytes \<Rightarrow> string" where
  "join_bytes bs = join '','' (map (\<lambda>b. decimal (unat b)) bs)"

subsection \<open>Trace records, library functions and events\<close>

record trace =
  tr_operation :: string
  tr_key :: string
  tr_value :: string
  tr_blockHeight :: int
  tr_blockTimeUnixMs :: int

text \<open>The fields of the \<open>ContractInfo\<close> protobuf that \<open>match\<close> reads; a missing
  \<open>code_id\<close> decodes as 0.\<close>

record contractInfo =
  ci_codeId :: nat
  ci_creator :: string
  ci_admin :: string
  ci_label :: string

text \<open>A JSON value. Only the integral numbers are represented.\<close>

datatype json =
  JNull | JBool bool | JNum int | JStr string | JArr "json list" | JObj "(string \<times> json) list"

text \<open>The library functions. Each returns \<open>Inl\<close> where the library throws.\<close>

record lib =
  fromBase64 :: "string \<Rightarrow> error + bytes"
  fromUtf8 :: "bytes \<Rightarrow> error + string"
  toBech32 :: "string \<Rightarrow> bytes \<Rightarrow> error + string"
  ContractInfo_decode :: "bytes \<Rightarrow> error + contractInfo"
  JSON_parse :: "string \<Rightarrow> error + json"

text \<open>The \<open>data\<close> of a contract event and of a state event.\<close>

record contractData =
  ce_address :: string
  ce_codeId :: int
  ce_admin :: string
  ce_creator :: string
  ce_label :: string
  ce_blockHeight :: int
  ce_blockTimeUnixMs :: int

record stateData =
  se_codeId :: int
  se_contractAddress :: string
  se_blockHeight :: int
  se_blockTimeUnixMs :: int
  se_key :: string
  se_value :: string
  se_valueJson :: json
  se_delete :: bool

text \<open>An event: its \<open>id\<close>, and its \<open>data\<close> under its \<open>type\<close>.\<close>

datatype event = ContractEvent string contractData | StateEvent string stateData

subsection \<open>The matcher\<close>

definition STORE_NAME :: string where
  "STORE_NAME = ''wasm''"

definition DEFAULT_CONTRACT_BYTE_LENGTH :: nat where
  "DEFAULT_CONTRACT_BYTE_LENGTH = 32"

definition isTerraClassic :: "string \<Rightarrow> bool" where
  "isTerraClassic chainId = (chainId = ''columbus-5'')"

definition CONTRACT_KEY_PREFIX :: "string \<Rightarrow> byte" where
  "CONTRACT_KEY_PREFIX chainId = (if isTerraClassic chainId then 0x04 else 0x02)"

definition CONTRACT_STORE_PREFIX :: "string \<Rightarrow> byte" where
  "CONTRACT_STORE_PREFIX chainId = (if isTerraClassic chainId then 0x05 else 0x03)"

text \<open>
  \<open>match\<close> returns \<open>Inr None\<close> where the source returns \<open>undefined\<close>, \<open>Inr (Some e)\<close>
  where it returns an event, and \<open>Inl err\<close> where a library call outside a \<open>try\<close> throws.
\<close>

definition match :: "lib \<Rightarrow> string \<Rightarrow> string \<Rightarrow> trace \<Rightarrow> error + event option" where
  "match l chainId bech32Prefix tr =
     (case fromBase64 l (tr_key tr) of
        Inl err \<Rightarrow> Inl err
      | Inr keyData \<Rightarrow>
          if at keyData 0 \<noteq> Some (CONTRACT_STORE_PREFIX chainId) \<and>
             at keyData 0 \<noteq> Some (CONTRACT_KEY_PREFIX chainId)
          then Inr None
          else
            let contractByteLength =
                  (if isTerraClassic chainId then map_option unat (at keyData 1)
                   else Some DEFAULT_CONTRACT_BYTE_LENGTH);
                contractAddressOffset = (if isTerraClassic chainId then 2 else 1 :: nat)
            in
            if js_less (length keyData) (js_add contractAddressOffset contractByteLength)
            then Inr None
            else
              (case toBech32 l bech32Prefix
                      (slice keyData (Some contractAddressOffset)
                         (js_add contractAddressOffset contractByteLength)) of
                 Inl err \<Rightarrow> Inl err
               | Inr contractAddress \<Rightarrow>
                   let key = join_bytes
                               (slice_from keyData (js_add contractAddressOffset contractByteLength));
                       blockHeight = tr_blockHeight tr;
                       blockTimeUnixMs = tr_blockTimeUnixMs tr
                   in
                   if tr_operation tr = ''write'' \<and> at keyData 0 = Some (CONTRACT_KEY_PREFIX chainId)
                   then
                     (case fromBase64 l (tr_value tr) of
                        Inl err \<Rightarrow> Inl err
                      | Inr protobufContractInfo \<Rightarrow>
                          (case ContractInfo_decode l protobufContractInfo of
                             Inl err \<Rightarrow> Inr None
                           | Inr contractInfo \<Rightarrow>
                               if ci_codeId contractInfo = 0 then Inr None
                               else Inr (Some (ContractEvent
                                 (join '':'' [''contract'', BigInt_toString blockHeight, contractAddress])
                                 \<lparr> ce_address = contractAddress,
                                   ce_codeId = int (ci_codeId contractInfo),
                                   ce_admin = ci_admin contractInfo,
                                   ce_creator = ci_creator contractInfo,
                                   ce_label = ci_label contractInfo,
                                   ce_blockHeight = blockHeight,
                                   ce_blockTimeUnixMs = blockTimeUnixMs \<rparr>))))
                   else
                     let val =
                           (if tr_value tr = [] then tr_value tr
                            else
                              (case fromBase64 l (tr_value tr) of
                                 Inl err \<Rightarrow> tr_value tr
                               | Inr raw \<Rightarrow>
                                   (case fromUtf8 l raw of
                                      Inl err \<Rightarrow> tr_value tr
                                    | Inr s \<Rightarrow> s)));
                         valueJson =
                           (if tr_operation tr \<noteq> ''delete'' \<and> val \<noteq> []
                            then (case JSON_parse l val of Inl err \<Rightarrow> JNull | Inr j \<Rightarrow> j)
                            else JNull)
                     in Inr (Some (StateEvent
                          (join '':'' [''state'', BigInt_toString blockHeight, contractAddress, key])
                          \<lparr> se_codeId = 0,
                            se_contractAddress = contractAddress,
                            se_blockHeight = blockHeight,
                            se_blockTimeUnixMs = blockTimeUnixMs,
                            se_key = key,
                            se_value = val,
                            se_valueJson = valueJson,
                            se_delete = (tr_operation tr = ''delete'') \<rparr>))))"

subsection \<open>The libraries on concrete inputs\<close>

text \<open>
  For evaluating the model on concrete trace records, the library functions as they
  compute: base64 (RFC 4648, with padding), strict UTF-8 (as \<open>TextDecoder\<close> with
  \<open>fatal\<close>, which drops a leading byte-order mark) and bech32 (BIP 173, with the length
  limit 90 of \<open>toBech32\<close>). The protobuf and the JSON decoder are given by tables of the
  results on the inputs that the examples use.
\<close>

definition char_of_byte :: "byte \<Rightarrow> char" where
  "char_of_byte b =
     Char (bit b 0) (bit b 1) (bit b 2) (bit b 3) (bit b 4) (bit b 5) (bit b 6) (bit b 7)"

definition b64val :: "char \<Rightarrow> nat option" where
  "b64val c =
     (let n = (of_char c :: nat) in
      if 65 \<le> n \<and> n \<le> 90 then Some (n - 65)
      else if 97 \<le> n \<and> n \<le> 122 then Some (n - 71)
      else if 48 \<le> n \<and> n \<le> 57 then Some (n + 4)
      else if n = 43 then Some 62
      else if n = 47 then Some 63
      else None)"

fun b64decode :: "string \<Rightarrow> bytes option" where
  "b64decode [] = Some []"
| "b64decode (a # b # c # d # rest) =
     (if rest = [] \<and> c = CHR ''='' \<and> d = CHR ''=''
      then (case (b64val a, b64val b) of
              (Some x, Some y) \<Rightarrow> Some [of_nat ((x * 64 + y) div 16)]
            | _ \<Rightarrow> None)
      else if rest = [] \<and> d = CHR ''=''
      then (case (b64val a, b64val b, b64val c) of
              (Some x, Some y, Some z) \<Rightarrow>
                Some [of_nat (((x * 64 + y) * 64 + z) div 1024),
                      of_nat (((x * 64 + y) * 64 + z) div 4 mod 256)]
            | _ \<Rightarrow> None)
      else (case (b64val a, b64val b, b64val c, b64val d, b64decode rest) of
              (Some x, Some y, Some z, Some w, Some bs) \<Rightarrow>
                Some (of_nat ((((x * 64 + y) * 64 + z) * 64 + w) div 65536) #
                      of_nat ((((x * 64 + y) * 64 + z) * 64 + w) div 256 mod 256) #
                      of_nat ((((x * 64 + y) * 64 + z) * 64 + w) mod 256) # bs)
            | _ \<Rightarrow> None))"
| "b64decode _ = None"

definition std_fromBase64 :: "string \<Rightarrow> error + bytes" where
  "std_fromBase64 s =
     (case b64decode s of
        None \<Rightarrow> Inl (Error ''Invalid base64 string format'')
      | Some bs \<Rightarrow> Inr bs)"

definition utf8_cont :: "byte \<Rightarrow> bool" where
  "utf8_cont c = (0x80 \<le> c \<and> c \<le> 0xBF)"

definition utf8_second :: "byte \<Rightarrow> byte \<Rightarrow> bool" where
  "utf8_second b c =
     (if b = 0xE0 then 0xA0 \<le> c \<and> c \<le> 0xBF
      else if b = 0xED then 0x80 \<le> c \<and> c \<le> 0x9F
      else if b = 0xF0 then 0x90 \<le> c \<and> c \<le> 0xBF
      else if b = 0xF4 then 0x80 \<le> c \<and> c \<le> 0x8F
      else utf8_cont c)"

fun utf8_valid :: "bytes \<Rightarrow> bool" where
  "utf8_valid [] = True"
| "utf8_valid (b # bs) =
     (if b < 0x80 then utf8_valid bs
      else if 0xC2 \<le> b \<and> b \<le> 0xDF
      then (case bs of c1 # r \<Rightarrow> utf8_cont c1 \<and> utf8_valid r | _ \<Rightarrow> False)
      else if 0xE0 \<le> b \<and> b \<le> 0xEF
      then (case bs of
              c1 # c2 # r \<Rightarrow> utf8_second b c1 \<and> utf8_cont c2 \<and> utf8_valid r
            | _ \<Rightarrow> False)
      else if 0xF0 \<le> b \<and> b \<le> 0xF4
      then (case bs of
              c1 # c2 # c3 # r \<Rightarrow>
                utf8_second b c1 \<and> utf8_cont c2 \<and> utf8_cont c3 \<and> utf8_valid r
            | _ \<Rightarrow> False)
      else False)"

definition strip_bom :: "bytes \<Rightarrow> bytes" where
  "strip_bom bs = (if take 3 bs = [0xEF, 0xBB, 0xBF] then drop 3 bs else bs)"

definition std_fromUtf8 :: "bytes \<Rightarrow> error + string" where
  "std_fromUtf8 bs =
     (if utf8_valid bs then Inr (map char_of_byte (strip_bom bs))
      else Inl (Error ''The encoded data was not valid.''))"

definition bech32_CHARSET :: string where
  "bech32_CHARSET = ''qpzry9x8gf2tvdw0s3jn54khce6mua7l''"

definition bech32_GEN :: "32 word list" where
  "bech32_GEN = [0x3b6a57b2, 0x26508e6d, 0x1ea119fa, 0x3d4233dd, 0x2a1462b3]"

definition polymod_step :: "32 word \<Rightarrow> 32 word \<Rightarrow> 32 word" where
  "polymod_step v chk =
     (let top = drop_bit 25 chk;
          c0 = push_bit 5 (chk AND 0x1ffffff) XOR v
      in fold (\<lambda>i c. if bit top i then c XOR (bech32_GEN ! i) else c) [0, 1, 2, 3, 4] c0)"

definition polymod :: "32 word list \<Rightarrow> 32 word" where
  "polymod vs = fold polymod_step vs 1"

definition hrpExpand :: "string \<Rightarrow> 32 word list" where
  "hrpExpand s = map (\<lambda>c. drop_bit 5 (of_char c)) s @ [0] @ map (\<lambda>c. of_char c AND 31) s"

definition createChecksum :: "string \<Rightarrow> 32 word list \<Rightarrow> 32 word list" where
  "createChecksum hrp ws =
     (let pm = polymod (hrpExpand hrp @ ws @ [0, 0, 0, 0, 0, 0]) XOR 1
      in map (\<lambda>i. drop_bit (5 * (5 - i)) pm AND 31) [0, 1, 2, 3, 4, 5])"

definition bits_of_byte :: "byte \<Rightarrow> bool list" where
  "bits_of_byte b = map (bit b) [7, 6, 5, 4, 3, 2, 1, 0]"

fun group5 :: "bool list \<Rightarrow> bool list list" where
  "group5 [] = []"
| "group5 (a # b # c # d # e # r) = [a, b, c, d, e] # group5 r"
| "group5 xs = [xs @ replicate (5 - length xs) False]"

definition word_of_bits :: "bool list \<Rightarrow> 32 word" where
  "word_of_bits bs = fold (\<lambda>b w. push_bit 1 w OR (if b then 1 else 0)) bs 0"

definition toWords :: "bytes \<Rightarrow> 32 word list" where
  "toWords bs = map word_of_bits (group5 (concat (map bits_of_byte bs)))"

definition std_toBech32 :: "string \<Rightarrow> bytes \<Rightarrow> error + string" where
  "std_toBech32 prefix data =
     (let ws = toWords data in
      if length prefix + 7 + length ws > 90 then Inl (Error ''Exceeds length limit'')
      else if list_ex (\<lambda>c. (of_char c :: nat) < 33 \<or> 126 < (of_char c :: nat)) prefix
      then Inl (Error ''Invalid prefix'')
      else Inr (prefix @ ''1'' @ map (\<lambda>w. bech32_CHARSET ! unat w) (ws @ createChecksum prefix ws)))"

text \<open>
  \<open>ContractInfo.decode\<close> on: the encoding of \<open>{code_id: 42, creator: "c", admin: "a",
  label: "L"}\<close>; the encoding of \<open>{creator: "c"}\<close>, whose \<open>code_id\<close> is missing; the
  byte \<open>0xFF\<close>, a tag that ends early.
\<close>

definition example_ContractInfo_decode :: "bytes \<Rightarrow> error + contractInfo" where
  "example_ContractInfo_decode bs =
     (if bs = [0x08, 0x2A, 0x12, 0x01, 0x63, 0x1A, 0x01, 0x61, 0x22, 0x01, 0x4C]
      then Inr \<lparr> ci_codeId = 42, ci_creator = ''c'', ci_admin = ''a'', ci_label = ''L'' \<rparr>
      else if bs = [0x12, 0x01, 0x63]
      then Inr \<lparr> ci_codeId = 0, ci_creator = ''c'', ci_admin = [], ci_label = [] \<rparr>
      else Inl (Error ''premature EOF''))"

text \<open>\<open>JSON.parse\<close> on \<open>{"x":1}\<close>, on \<open>1234\<close> and on text that is not JSON.\<close>

definition example_JSON_parse :: "string \<Rightarrow> error + json" where
  "example_JSON_parse s =
     (if s = [CHR ''{'', CHR 0x22, CHR ''x'', CHR 0x22, CHR '':'', CHR ''1'', CHR ''}'']
      then Inr (JObj [(''x'', JNum 1)])
      else if s = ''1234'' then Inr (JNum 1234)
      else Inl (Error ''Unexpected token''))"

definition std :: lib where
  "std = \<lparr> fromBase64 = std_fromBase64,
           fromUtf8 = std_fromUtf8,
           toBech32 = std_toBech32,
           ContractInfo_decode = example_ContractInfo_decode,
           JSON_parse = example_JSON_parse \<rparr>"

subsection \<open>The layout of the keys of the wasm store\<close>

text \<open>
  The two layouts that the comment at the head of \<open>match\<close> documents: a prefix byte, on
  Terra Classic the length of the contract address in one byte, the bytes of the contract
  address, and (for a state key) the bytes of the key. A contract address has 32 bytes, on
  Terra Classic as many as the length byte says.
\<close>

definition wasmKey :: "string \<Rightarrow> byte \<Rightarrow> bytes \<Rightarrow> bytes \<Rightarrow> bytes" where
  "wasmKey chainId prefix addr userKey =
     (if isTerraClassic chainId then prefix # of_nat (length addr) # addr @ userKey
      else prefix # addr @ userKey)"

definition addressLength_ok :: "string \<Rightarrow> bytes \<Rightarrow> bool" where
  "addressLength_ok chainId addr =
     (if isTerraClassic chainId then length addr < 256
      else length addr = DEFAULT_CONTRACT_BYTE_LENGTH)"

text \<open>Example data: a contract address of 32 bytes and one of 20 bytes.\<close>

definition address32 :: bytes where
  "address32 = [1, 2, 3, 4, 5, 6, 7, 8, 9, 10, 11, 12, 13, 14, 15, 16,
                17, 18, 19, 20, 21, 22, 23, 24, 25, 26, 27, 28, 29, 30, 31, 32]"

definition address20 :: bytes where
  "address20 = [1, 2, 3, 4, 5, 6, 7, 8, 9, 10, 11, 12, 13, 14, 15, 16, 17, 18, 19, 20]"

subsection \<open>Computations that may throw\<close>

text \<open>
  An asynchronous function of the source is a function from the state before to the result
  (\<open>Inl\<close> where it throws) and the state after.
\<close>

definition ret :: "'a \<Rightarrow> 's \<Rightarrow> (error + 'a) \<times> 's" where
  "ret x s = (Inr x, s)"

definition throw :: "error \<Rightarrow> 's \<Rightarrow> (error + 'a) \<times> 's" where
  "throw err s = (Inl err, s)"

definition bindE ::
  "('s \<Rightarrow> (error + 'a) \<times> 's) \<Rightarrow> ('a \<Rightarrow> 's \<Rightarrow> (error + 'b) \<times> 's) \<Rightarrow> 's \<Rightarrow> (error + 'b) \<times> 's" where
  "bindE m f s = (case m s of (Inl err, s') \<Rightarrow> (Inl err, s') | (Inr x, s') \<Rightarrow> f x s')"

text \<open>
  \<open>retry(fn, args, {retriesMax, exponential, interval})\<close> of \<open>async-await-retry\<close>: it calls
  \<open>fn\<close> until a call returns, at most \<open>retriesMax\<close> times, and throws what the last call
  threw. \<open>tries n\<close> is a call with \<open>n\<close> more calls left after it. The waiting between two
  calls is time and has no counterpart here.
\<close>

primrec tries :: "nat \<Rightarrow> ('s \<Rightarrow> (error + 'a) \<times> 's) \<Rightarrow> 's \<Rightarrow> (error + 'a) \<times> 's" where
  "tries 0 f s = f s"
| "tries (Suc n) f s =
     (case f s of (Inl err, s') \<Rightarrow> tries n f s' | (Inr x, s') \<Rightarrow> (Inr x, s'))"

definition retry :: "nat \<Rightarrow> ('s \<Rightarrow> (error + 'a) \<times> 's) \<Rightarrow> 's \<Rightarrow> (error + 'a) \<times> 's" where
  "retry retriesMax f = tries (retriesMax - 1) f"

subsection \<open>The database, the queues and the node\<close>

text \<open>A \<open>Date\<close>, by its milliseconds since the epoch.\<close>

datatype date = Date int

text \<open>A row of the \<open>Contract\<close> model.\<close>

record contract =
  address :: string
  codeId :: int
  admin :: "string option"
  creator :: "string option"
  label :: "string option"
  instantiatedAtBlockHeight :: int
  instantiatedAtBlockTimeUnixMs :: int
  instantiatedAtBlockTimestamp :: date

text \<open>The row of the \<open>State\<close> model. \<open>lastWasmBlockHeightExported\<close> may be null.\<close>

record state =
  lastWasmBlockHeightExported :: "int option"
  latestBlockHeight :: int
  latestBlockTimeUnixMs :: int

text \<open>A row of the \<open>WasmStateEventTransformation\<close> model.\<close>

record transformation =
  tf_contractAddress :: string
  tf_blockHeight :: int
  tf_name :: string
  tf_value :: json

text \<open>What \<open>process\<close> returns: the exported events and the transformations, each with its
  contract.\<close>

datatype created =
  CreatedEvent stateData "contract option"
| CreatedTransformation transformation "contract option"

text \<open>
  The state that \<open>process\<close> and \<open>getCodeId\<close> read and write: the tables of the database,
  the in-memory cache of code IDs (most recently used first), the queues, what was logged,
  and the number of calls made so far to the node and to the database.
\<close>

record world =
  blocks :: "(int \<times> int) list"
  contracts :: "contract list"
  wasmStateEvents :: "stateData list"
  stateSingleton :: "state option"
  codeIdCache :: "(string \<times> int) list"
  errorLog :: "error list"
  wasmCodeTrackersQueue :: "(int \<times> contractData list \<times> stateData list) list"
  webhookQueue :: "stateData list list"
  rpcCalls :: nat
  dbCalls :: nat

text \<open>
  What lies outside the handler: whether the CosmWasm client is connected; what the \<open>n\<close>-th
  call of \<open>getContract\<close> returns (the code ID) or throws; whether the \<open>n\<close>-th call to the
  database or a queue throws; the option \<open>sendWebhooks\<close>; the code registry
  (\<open>WasmCodeService\<close>); \<open>dbKeyForKeys\<close>; and the transformers.
\<close>

record env =
  client :: bool
  getContract :: "nat \<Rightarrow> string \<Rightarrow> error + int"
  dbFails :: "nat \<Rightarrow> error option"
  sendWebhooks :: bool
  findWasmCodeIdsByKeys :: "string list \<Rightarrow> int list"
  dbKeyForKeys :: "string \<Rightarrow> string"
  transformParsedStateEvents :: "stateData list \<Rightarrow> transformation list"

text \<open>An awaited call to the database or to a queue: it throws when the environment says so,
  and has no effect then.\<close>

definition db :: "env \<Rightarrow> (world \<Rightarrow> 'a \<times> world) \<Rightarrow> world \<Rightarrow> (error + 'a) \<times> world" where
  "db e op w =
     (let w1 = w\<lparr> dbCalls := Suc (dbCalls w) \<rparr> in
      case dbFails e (dbCalls w) of
        Some err \<Rightarrow> (Inl err, w1)
      | None \<Rightarrow> (case op w1 of (x, w2) \<Rightarrow> (Inr x, w2)))"

text \<open>\<open>[...new Set(xs)]\<close>: the elements of \<open>xs\<close> in the order of their first occurrence.\<close>

definition uniq :: "'a list \<Rightarrow> 'a list" where
  "uniq xs = fold (\<lambda>x acc. if x \<in> set acc then acc else acc @ [x]) xs []"

text \<open>Modelled from the spec: \<open>Block.createMany\<close> (module \<open>@/db\<close>, not among the sources).
  One row per height; existing rows are not overwritten.\<close>

definition Block_createMany :: "(int \<times> int) list \<Rightarrow> world \<Rightarrow> unit \<times> world" where
  "Block_createMany rows w =
     ((), w\<lparr> blocks :=
            fold (\<lambda>row tab. if fst row \<in> fst ` set tab then tab else tab @ [row]) rows (blocks w) \<rparr>)"

text \<open>Modelled from the spec: \<open>Contract.bulkCreate\<close> (Sequelize, on the model of module
  \<open>@/db\<close>). A row whose address is new is inserted; on a row whose address exists,
  \<open>updateOnDuplicate\<close> overwrites the named fields and \<open>ignoreDuplicates\<close> does nothing. The
  rows are taken in order.\<close>

definition updateOnDuplicate_info :: "contract \<Rightarrow> contract \<Rightarrow> contract" where
  "updateOnDuplicate_info old new =
     old\<lparr> codeId := codeId new, admin := admin new, creator := creator new, label := label new \<rparr>"

definition updateOnDuplicate_codeId :: "contract \<Rightarrow> contract \<Rightarrow> contract" where
  "updateOnDuplicate_codeId old new = old\<lparr> codeId := codeId new \<rparr>"

definition ignoreDuplicates :: "contract \<Rightarrow> contract \<Rightarrow> contract" where
  "ignoreDuplicates old new = old"

definition upsertContract ::
  "(contract \<Rightarrow> contract \<Rightarrow> contract) \<Rightarrow> contract \<Rightarrow> contract list \<Rightarrow> contract list" where
  "upsertContract onDuplicate row tab =
     (if list_ex (\<lambda>r. address r = address row) tab
      then map (\<lambda>r. if address r = address row then onDuplicate r row else r) tab
      else tab @ [row])"

definition Contract_bulkCreate ::
  "(contract \<Rightarrow> contract \<Rightarrow> contract) \<Rightarrow> contract list \<Rightarrow> world \<Rightarrow> unit \<times> world" where
  "Contract_bulkCreate onDuplicate rows w =
     ((), w\<lparr> contracts := fold (upsertContract onDuplicate) rows (contracts w) \<rparr>)"

text \<open>Modelled from the spec: \<open>Contract.findAll({ where: { address: addresses } })\<close>.\<close>

definition Contract_findAll :: "string list \<Rightarrow> world \<Rightarrow> contract list \<times> world" where
  "Contract_findAll addresses w = (filter (\<lambda>c. address c \<in> set addresses) (contracts w), w)"

text \<open>Modelled from the spec: \<open>event.$get('contract')\<close>, the contract row of an address.\<close>

definition getContractRow :: "string \<Rightarrow> world \<Rightarrow> contract option \<times> world" where
  "getContractRow a w = (find (\<lambda>c. address c = a) (contracts w), w)"

text \<open>Modelled from the spec: \<open>WasmStateEvent.bulkCreate\<close> with \<open>updateOnDuplicate: ['value',
  'valueJson', 'delete']\<close>, on the unique index \<open>(blockHeight, contractAddress, key)\<close>. It
  returns one instance for each row given.\<close>

definition upsertEvent :: "stateData \<Rightarrow> stateData list \<Rightarrow> stateData list" where
  "upsertEvent row tab =
     (let same = (\<lambda>r. se_blockHeight r = se_blockHeight row \<and>
                       se_contractAddress r = se_contractAddress row \<and> se_key r = se_key row)
      in if list_ex same tab
         then map (\<lambda>r. if same r
                        then r\<lparr> se_value := se_value row, se_valueJson := se_valueJson row,
                                se_delete := se_delete row \<rparr>
                        else r) tab
         else tab @ [row])"

definition WasmStateEvent_bulkCreate :: "stateData list \<Rightarrow> world \<Rightarrow> stateData list \<times> world" where
  "WasmStateEvent_bulkCreate rows w =
     (rows, w\<lparr> wasmStateEvents := fold upsertEvent rows (wasmStateEvents w) \<rparr>)"

text \<open>Modelled from the spec: \<open>State.getSingleton\<close> and \<open>State.updateSingleton\<close> with the
  three fields set to \<open>GREATEST\<close> of the column and the given value. The SQL function
  \<open>GREATEST\<close> ignores a null argument.\<close>

definition State_getSingleton :: "world \<Rightarrow> state option \<times> world" where
  "State_getSingleton w = (stateSingleton w, w)"

definition sql_GREATEST :: "int option \<Rightarrow> int \<Rightarrow> int option" where
  "sql_GREATEST col v = (case col of None \<Rightarrow> Some v | Some c \<Rightarrow> Some (max c v))"

definition State_updateSingleton :: "int \<Rightarrow> int \<Rightarrow> world \<Rightarrow> unit \<times> world" where
  "State_updateSingleton lastBlockHeightExported lastBlockTimeUnixMsExported w =
     ((), w\<lparr> stateSingleton :=
            map_option
              (\<lambda>st. st\<lparr> lastWasmBlockHeightExported :=
                           sql_GREATEST (lastWasmBlockHeightExported st) lastBlockHeightExported,
                         latestBlockHeight := max (latestBlockHeight st) lastBlockHeightExported,
                         latestBlockTimeUnixMs :=
                           max (latestBlockTimeUnixMs st) lastBlockTimeUnixMsExported \<rparr>)
              (stateSingleton w) \<rparr>)"

text \<open>Modelled from the spec: \<open>WasmCodeTrackersQueue.add\<close>, idempotent on its key, and
  \<open>AccountWebhook.queueWebhooks\<close>.\<close>

definition WasmCodeTrackersQueue_add ::
  "int \<Rightarrow> contractData list \<Rightarrow> stateData list \<Rightarrow> world \<Rightarrow> world" where
  "WasmCodeTrackersQueue_add k contractEvents stateEventUpdates w =
     (if k \<in> fst ` set (wasmCodeTrackersQueue w) then w
      else w\<lparr> wasmCodeTrackersQueue :=
                wasmCodeTrackersQueue w @ [(k, contractEvents, stateEventUpdates)] \<rparr>)"

definition AccountWebhook_queueWebhooks :: "stateData list \<Rightarrow> world \<Rightarrow> unit \<times> world" where
  "AccountWebhook_queueWebhooks evs w = ((), w\<lparr> webhookQueue := webhookQueue w @ [evs] \<rparr>)"

subsection \<open>The code-ID resolver\<close>

text \<open>The cache \<open>new LRUCache({ max: 1000 })\<close>: \<open>has\<close> does not touch the order, \<open>get\<close>
  moves the entry to the front, \<open>set\<close> puts the entry at the front and drops what is beyond
  the 1000 most recently used.\<close>

definition lru_max :: nat where
  "lru_max = 1000"

definition lru_has :: "(string \<times> int) list \<Rightarrow> string \<Rightarrow> bool" where
  "lru_has c k = (map_of c k \<noteq> None)"

definition lru_get :: "(string \<times> int) list \<Rightarrow> string \<Rightarrow> int option \<times> (string \<times> int) list" where
  "lru_get c k =
     (case map_of c k of
        None \<Rightarrow> (None, c)
      | Some v \<Rightarrow> (Some v, (k, v) # filter (\<lambda>p. fst p \<noteq> k) c))"

definition lru_set :: "(string \<times> int) list \<Rightarrow> string \<Rightarrow> int \<Rightarrow> (string \<times> int) list" where
  "lru_set c k v = take lru_max ((k, v) # filter (\<lambda>p. fst p \<noteq> k) c)"

text \<open>\<open>s.includes(sub)\<close>.\<close>

fun startsWith :: "string \<Rightarrow> string \<Rightarrow> bool" where
  "startsWith s [] = True"
| "startsWith [] (y # ys) = False"
| "startsWith (x # xs) (y # ys) = (x = y \<and> startsWith xs ys)"

fun str_includes :: "string \<Rightarrow> string \<Rightarrow> bool" where
  "str_includes [] sub = (sub = [])"
| "str_includes (x # xs) sub = (startsWith (x # xs) sub \<or> str_includes xs sub)"

definition loadIntoCache :: "env \<Rightarrow> string \<Rightarrow> world \<Rightarrow> (error + unit) \<times> world" where
  "loadIntoCache e contractAddress w =
     (case (if client e
            then (getContract e (rpcCalls w) contractAddress, w\<lparr> rpcCalls := Suc (rpcCalls w) \<rparr>)
            else (Inl (Error (''CosmWasm client not connected, cannot get code ID for ''
                              @ contractAddress @ ''.'')), w)) of
        (Inr c, w1) \<Rightarrow>
          (Inr (), w1\<lparr> codeIdCache := lru_set (codeIdCache w1) contractAddress c \<rparr>)
      | (Inl err, w1) \<Rightarrow>
          (case err of
             NonError \<Rightarrow> (Inl err, w1)
           | Error message \<Rightarrow>
               if str_includes message ''not found: invalid request''
               then (Inr (), w1\<lparr> codeIdCache := lru_set (codeIdCache w1) contractAddress 0 \<rparr>)
               else (Inl err, w1)))"

text \<open>\<open>codeIdCache.get(contractAddress) ?? 0\<close>.\<close>

definition cachedCodeId :: "string \<Rightarrow> world \<Rightarrow> int \<times> world" where
  "cachedCodeId contractAddress w =
     (case lru_get (codeIdCache w) contractAddress of
        (v, c) \<Rightarrow> ((case v of None \<Rightarrow> 0 | Some n \<Rightarrow> n), w\<lparr> codeIdCache := c \<rparr>))"

definition getCodeId :: "env \<Rightarrow> string \<Rightarrow> world \<Rightarrow> int \<times> world" where
  "getCodeId e contractAddress w =
     (if lru_has (codeIdCache w) contractAddress then cachedCodeId contractAddress w
      else
        (case retry 3 (loadIntoCache e contractAddress) w of
           (Inr u, w1) \<Rightarrow> cachedCodeId contractAddress w1
         | (Inl err, w1) \<Rightarrow>
             cachedCodeId contractAddress
               (w1\<lparr> errorLog := errorLog w1 @ [err],
                    codeIdCache := lru_set (codeIdCache w1) contractAddress 0 \<rparr>)))"

subsection \<open>The batch processor\<close>

definition ev_blockHeight :: "event \<Rightarrow> int" where
  "ev_blockHeight ev =
     (case ev of ContractEvent i d \<Rightarrow> ce_blockHeight d | StateEvent i d \<Rightarrow> se_blockHeight d)"

definition ev_blockTimeUnixMs :: "event \<Rightarrow> int" where
  "ev_blockTimeUnixMs ev =
     (case ev of
        ContractEvent i d \<Rightarrow> ce_blockTimeUnixMs d
      | StateEvent i d \<Rightarrow> se_blockTimeUnixMs d)"

text \<open>\<open>events.flatMap((event) => event.type === 'contract' ? event.data : [])\<close>, and the same
  for \<open>'state'\<close>.\<close>

definition contractEventsOf :: "event list \<Rightarrow> contractData list" where
  "contractEventsOf events =
     concat (map (\<lambda>ev. case ev of ContractEvent i d \<Rightarrow> [d] | StateEvent i d \<Rightarrow> []) events)"

definition stateEventsOf :: "event list \<Rightarrow> stateData list" where
  "stateEventsOf events =
     concat (map (\<lambda>ev. case ev of ContractEvent i d \<Rightarrow> [] | StateEvent i d \<Rightarrow> [d]) events)"

text \<open>The rows of \<open>Block.createMany\<close>: one for each height, with the time of the first event
  of that height.\<close>

definition blockRows :: "event list \<Rightarrow> (int \<times> int) list" where
  "blockRows events =
     concat (map (\<lambda>height.
                    case find (\<lambda>ev. ev_blockHeight ev = height) events of
                      None \<Rightarrow> []
                    | Some ev \<Rightarrow> [(height, ev_blockTimeUnixMs ev)])
                 (uniq (map ev_blockHeight events)))"

text \<open>The row of \<open>Contract.bulkCreate\<close> for a contract event.\<close>

definition contractRow :: "contractData \<Rightarrow> contract" where
  "contractRow d =
     \<lparr> address = ce_address d,
       codeId = ce_codeId d,
       admin = Some (ce_admin d),
       creator = Some (ce_creator d),
       label = Some (ce_label d),
       instantiatedAtBlockHeight = ce_blockHeight d,
       instantiatedAtBlockTimeUnixMs = ce_blockTimeUnixMs d,
       instantiatedAtBlockTimestamp = Date (ce_blockTimeUnixMs d) \<rparr>"

text \<open>The table \<open>CONTRACT_STATE_EVENT_KEY_ALLOWLIST\<close>, \<open>stateEventAllowlist\<close> (the state
  keys in their database form), and \<open>allowlist\<close> (the code IDs of each rule resolved by the
  registry, the rules without code IDs left out).\<close>

record allowlistRule =
  codeIdsKeys :: "string list"
  stateKeys :: "string list"

record resolvedRule = allowlistRule +
  codeIds :: "int list"

definition CONTRACT_STATE_EVENT_KEY_ALLOWLIST :: "string \<Rightarrow> allowlistRule list option" where
  "CONTRACT_STATE_EVENT_KEY_ALLOWLIST chainId =
     (if chainId = ''kaiyo-1''
      then Some [\<lparr> codeIdsKeys = [''kujira-fin''], stateKeys = [''contract_info''] \<rparr>]
      else if chainId = ''osmosis-1''
      then Some [\<lparr> codeIdsKeys = [''levana-finance'', ''cl-vault'', ''icns-resolver'',
                                   ''skip-api'', ''calc-dca'', ''rate-limiter''],
                   stateKeys = [''contract_info''] \<rparr>]
      else None)"

definition stateEventAllowlist :: "env \<Rightarrow> string \<Rightarrow> allowlistRule list option" where
  "stateEventAllowlist e chainId =
     map_option
       (map (\<lambda>r. \<lparr> codeIdsKeys = codeIdsKeys r, stateKeys = map (dbKeyForKeys e) (stateKeys r) \<rparr>))
       (CONTRACT_STATE_EVENT_KEY_ALLOWLIST chainId)"

definition allowlist :: "env \<Rightarrow> string \<Rightarrow> resolvedRule list option" where
  "allowlist e chainId =
     map_option
       (\<lambda>rules.
          filter (\<lambda>r. codeIds r \<noteq> [])
            (map (\<lambda>r. \<lparr> codeIdsKeys = codeIdsKeys r, stateKeys = stateKeys r,
                         codeIds = findWasmCodeIdsByKeys e (codeIdsKeys r) \<rparr>) rules))
       (stateEventAllowlist e chainId)"

text \<open>The predicate of the filter over the state events, and the filter, which runs when
  the allowlist is there and has a rule.\<close>

definition keepStateEvent :: "resolvedRule list \<Rightarrow> contract list \<Rightarrow> stateData \<Rightarrow> bool" where
  "keepStateEvent rules cs ev =
     (case map_option codeId (find (\<lambda>c. address c = se_contractAddress ev) cs) of
        None \<Rightarrow> True
      | Some c \<Rightarrow>
          c = 0 \<or>
          \<not> list_ex (\<lambda>r. c \<in> set (codeIds r) \<and> se_key ev \<notin> set (stateKeys r)) rules)"

definition filterStateEvents ::
  "resolvedRule list option \<Rightarrow> contract list \<Rightarrow> stateData list \<Rightarrow> stateData list" where
  "filterStateEvents al cs stateEvents =
     (case al of
        None \<Rightarrow> stateEvents
      | Some rules \<Rightarrow>
          if rules \<noteq> [] then filter (keepStateEvent rules cs) stateEvents else stateEvents)"

text \<open>The row that ensures that the contract of an address exists: it is made from the first
  event of that address in the list.\<close>

definition backfillRow :: "stateData list \<Rightarrow> string \<Rightarrow> error + contract" where
  "backfillRow stateEvents a =
     (case find (\<lambda>ev. se_contractAddress ev = a) stateEvents of
        None \<Rightarrow> Inl (Error ''Event not found when creating contract.'')
      | Some ev \<Rightarrow>
          Inr \<lparr> address = a,
                codeId = 0,
                admin = None,
                creator = None,
                label = None,
                instantiatedAtBlockHeight = se_blockHeight ev,
                instantiatedAtBlockTimeUnixMs = se_blockTimeUnixMs ev,
                instantiatedAtBlockTimestamp = Date (se_blockTimeUnixMs ev) \<rparr>)"

text \<open>\<open>xs.map(f)\<close> where \<open>f\<close> may throw.\<close>

fun mapE :: "('a \<Rightarrow> error + 'b) \<Rightarrow> 'a list \<Rightarrow> error + 'b list" where
  "mapE f [] = Inr []"
| "mapE f (x # xs) =
     (case f x of
        Inl err \<Rightarrow> Inl err
      | Inr y \<Rightarrow> (case mapE f xs of Inl err \<Rightarrow> Inl err | Inr ys \<Rightarrow> Inr (y # ys)))"

text \<open>\<open>Promise.all(addresses.map(getCodeId))\<close>, the calls taken one after the other.\<close>

fun getCodeIds :: "env \<Rightarrow> string list \<Rightarrow> world \<Rightarrow> int list \<times> world" where
  "getCodeIds e [] w = ([], w)"
| "getCodeIds e (a # as) w =
     (case getCodeId e a w of
        (c, w1) \<Rightarrow> (case getCodeIds e as w1 of (cs, w2) \<Rightarrow> (c # cs, w2)))"

text \<open>The code IDs of the contracts whose code ID is 0 or less are asked of the node; those
  found are stored, and the contracts are read again.\<close>

definition getMissingCodeIds ::
  "env \<Rightarrow> string list \<Rightarrow> contract list \<Rightarrow> world \<Rightarrow> (error + contract list) \<times> world" where
  "getMissingCodeIds e uniqueContracts cs w =
     (let contractsToGetCodeId = filter (\<lambda>c. codeId c \<le> 0) cs in
      if contractsToGetCodeId \<noteq> []
      then
        (case getCodeIds e (map address contractsToGetCodeId) w of
           (ids, w1) \<Rightarrow>
             bindE
               (db e (Contract_bulkCreate updateOnDuplicate_codeId
                        (filter (\<lambda>c. codeId c > 0)
                           (map (\<lambda>p. (fst p)\<lparr> codeId := snd p \<rparr>) (zip contractsToGetCodeId ids)))))
               (\<lambda>u. db e (Contract_findAll uniqueContracts))
               w1)
      else ret cs w)"

text \<open>
  \<open>exportContractsAndEvents\<close> assigns to the variable \<open>stateEvents\<close> of \<open>process\<close>, and is
  run again when it throws: its state is that variable together with the world.
\<close>

definition inWorld ::
  "(world \<Rightarrow> (error + 'a) \<times> world) \<Rightarrow> stateData list \<times> world \<Rightarrow> (error + 'a) \<times> (stateData list \<times> world)"
  where
  "inWorld m s = (case m (snd s) of (r, w') \<Rightarrow> (r, (fst s, w')))"

definition exportContractsAndEvents ::
  "env \<Rightarrow> string \<Rightarrow> string list \<Rightarrow> stateData list \<times> world \<Rightarrow>
     (error + contract list \<times> stateData list) \<times> (stateData list \<times> world)" where
  "exportContractsAndEvents e chainId uniqueContracts =
     bindE (\<lambda>s. (mapE (backfillRow (fst s)) uniqueContracts, s)) (\<lambda>rows.
     bindE (inWorld (db e (Contract_bulkCreate ignoreDuplicates rows))) (\<lambda>u.
     bindE (inWorld (db e (Contract_findAll uniqueContracts))) (\<lambda>found.
     bindE (inWorld (getMissingCodeIds e uniqueContracts found)) (\<lambda>cs.
     bindE (\<lambda>s. (Inr (), (filterStateEvents (allowlist e chainId) cs (fst s), snd s))) (\<lambda>u.
     bindE (\<lambda>s. inWorld (db e (WasmStateEvent_bulkCreate (fst s))) s) (\<lambda>evs.
     ret (cs, evs)))))))"

text \<open>The call of \<open>exportContractsAndEvents\<close> under \<open>retry\<close>, from the state events of
  \<open>process\<close>; it gives back what \<open>stateEvents\<close> holds afterwards.\<close>

definition runExport ::
  "(stateData list \<times> world \<Rightarrow> (error + 'a) \<times> (stateData list \<times> world)) \<Rightarrow>
     stateData list \<Rightarrow> world \<Rightarrow> (error + 'a \<times> stateData list) \<times> world" where
  "runExport m stateEvents w =
     (case m (stateEvents, w) of
        (Inl err, s) \<Rightarrow> (Inl err, snd s)
      | (Inr x, s) \<Rightarrow> (Inr (x, fst s), snd s))"

text \<open>
  ``Add contract to events'' and ``Add contract to transformations'': each item gets the
  contract of its address from the list \<open>cs\<close>; a contract that is not there is fetched
  from the database and, when it exists, added to the list.
\<close>

fun attachContracts ::
  "env \<Rightarrow> ('a \<Rightarrow> string) \<Rightarrow> 'a list \<Rightarrow> contract list \<Rightarrow> world \<Rightarrow>
     (error + ('a \<times> contract option) list \<times> contract list) \<times> world" where
  "attachContracts e addressOf [] cs w = (Inr ([], cs), w)"
| "attachContracts e addressOf (x # xs) cs w =
     (case find (\<lambda>c. address c = addressOf x) cs of
        Some c \<Rightarrow>
          (case attachContracts e addressOf xs cs w of
             (Inl err, w') \<Rightarrow> (Inl err, w')
           | (Inr (ys, cs'), w') \<Rightarrow> (Inr ((x, Some c) # ys, cs'), w'))
      | None \<Rightarrow>
          (case db e (getContractRow (addressOf x)) w of
             (Inl err, w1) \<Rightarrow> (Inl err, w1)
           | (Inr fetched, w1) \<Rightarrow>
               (case attachContracts e addressOf xs
                       (case fetched of None \<Rightarrow> cs | Some c \<Rightarrow> cs @ [c]) w1 of
                  (Inl err, w') \<Rightarrow> (Inl err, w')
                | (Inr (ys, cs'), w') \<Rightarrow> (Inr ((x, fetched) # ys, cs'), w'))))"

text \<open>``Add code ID to parsed events''.\<close>

definition addCodeId :: "contract list \<Rightarrow> stateData \<Rightarrow> stateData" where
  "addCodeId cs ev =
     (case find (\<lambda>c. address c = se_contractAddress ev) cs of
        None \<Rightarrow> ev
      | Some c \<Rightarrow> ev\<lparr> se_codeId := codeId c \<rparr>)"

text \<open>``Queue webhooks as needed'': the exported events at or above the last height exported
  before this batch.\<close>

definition queueWebhooks :: "env \<Rightarrow> state \<Rightarrow> stateData list \<Rightarrow> world \<Rightarrow> (error + unit) \<times> world" where
  "queueWebhooks e st exportedEvents =
     (if sendWebhooks e
      then
        (let potentialUnsentWebhookEvents =
               filter (\<lambda>ev. (case lastWasmBlockHeightExported st of None \<Rightarrow> 0 | Some h \<Rightarrow> h)
                              \<le> se_blockHeight ev) exportedEvents
         in if potentialUnsentWebhookEvents \<noteq> []
            then db e (AccountWebhook_queueWebhooks potentialUnsentWebhookEvents)
            else ret ())
      else ret ())"

text \<open>
  ``Store last block height exported, and update latest block height/time if the last
  export is newer'': the last event after the stable sort by height.
\<close>

definition storeLastBlock :: "env \<Rightarrow> event list \<Rightarrow> world \<Rightarrow> (error + unit) \<times> world" where
  "storeLastBlock e events =
     (case rev (sort_key ev_blockHeight events) of
        [] \<Rightarrow> throw (Error ''Cannot read properties of undefined (reading data)'')
      | lastEvent # others \<Rightarrow>
          db e (State_updateSingleton (ev_blockHeight lastEvent) (ev_blockTimeUnixMs lastEvent)))"

definition process :: "env \<Rightarrow> string \<Rightarrow> event list \<Rightarrow> world \<Rightarrow> (error + created list) \<times> world" where
  "process e chainId events =
     bindE (db e (Block_createMany (blockRows events))) (\<lambda>u.
     let contractEvents = contractEventsOf events in
     bindE (if contractEvents \<noteq> []
            then db e (Contract_bulkCreate updateOnDuplicate_info (map contractRow contractEvents))
            else ret ()) (\<lambda>u.
     let stateEvents = stateEventsOf events in
     bindE (\<lambda>w. ret () (case contractEvents of
                           [] \<Rightarrow> w
                         | c # cs \<Rightarrow>
                             WasmCodeTrackersQueue_add (ce_blockHeight c) contractEvents stateEvents w))
       (\<lambda>u.
     if stateEvents = [] then ret []
     else
       bindE (db e State_getSingleton) (\<lambda>singleton.
       case singleton of
         None \<Rightarrow> throw (Error ''State not found while exporting.'')
       | Some st \<Rightarrow>
           let uniqueContracts = uniq (map se_contractAddress stateEvents) in
           bindE (runExport (retry 3 (exportContractsAndEvents e chainId uniqueContracts))
                    stateEvents) (\<lambda>exported.
           bindE (attachContracts e se_contractAddress (snd (fst exported)) (fst (fst exported)))
             (\<lambda>attached.
           let exportedEvents = filter (\<lambda>p. snd p \<noteq> None) (fst attached);
               parsedEvents = filter (\<lambda>ev. 0 < se_codeId ev)
                                (map (addCodeId (snd attached)) (snd exported))
           in
           bindE (retry 3 (db e (\<lambda>w. (transformParsedStateEvents e parsedEvents, w))))
             (\<lambda>transformations.
           bindE (attachContracts e tf_contractAddress transformations (snd attached))
             (\<lambda>attachedT.
           let createdEvents =
                 map (\<lambda>p. CreatedEvent (fst p) (snd p)) exportedEvents @
                 map (\<lambda>p. CreatedTransformation (fst p) (snd p)) (fst attachedT)
           in
           bindE (queueWebhooks e st (map fst exportedEvents)) (\<lambda>u.
           bindE (storeLastBlock e events) (\<lambda>u.
           ret createdEvents))))))))))"

subsection \<open>Notions used in the statements\<close>




text \<open>A computation keeps the row of the State model.\<close>

definition keeps :: "('s \<Rightarrow> world) \<Rightarrow> ('s \<Rightarrow> 'r \<times> 's) \<Rightarrow> bool" where
  "keeps proj m = (\<forall>s. stateSingleton (proj (snd (m s))) = stateSingleton (proj s))"

text \<open>
  A computation finishes with \<open>U\<close>: when it throws it leaves the row of the State model as
  it was, and when it returns the row is \<open>U\<close> of what it was (and, under \<open>need\<close>, there was
  a row).
\<close>

definition finishes ::
  "bool \<Rightarrow> (state option \<Rightarrow> state option) \<Rightarrow> (world \<Rightarrow> (error + 'a) \<times> world) \<Rightarrow> bool" where
  "finishes need U m =
     (\<forall>w. case m w of
            (Inl err, w') \<Rightarrow> stateSingleton w' = stateSingleton w
          | (Inr x, w') \<Rightarrow>
              (if need then stateSingleton w \<noteq> None else True) \<and>
              stateSingleton w' = U (stateSingleton w))"

text \<open>The row of the State model after the update with height \<open>h\<close> and time \<open>t\<close>.\<close>

definition advanced :: "int \<Rightarrow> int \<Rightarrow> state \<Rightarrow> state" where
  "advanced h t st =
     st\<lparr> lastWasmBlockHeightExported := max (lastWasmBlockHeightExported st) (Some h),
         latestBlockHeight := max (latestBlockHeight st) h,
         latestBlockTimeUnixMs := max (latestBlockTimeUnixMs st) t \<rparr>"

text \<open>
  Example data: an environment in which no call to the database fails, the registry knows
  the code ID 100 under the key \<open>cl-vault\<close>, and \<open>dbKeyForKeys\<close> renders the bytes of a
  key; events and contracts; a world with empty tables whose State row has exported up to
  height 50, and that world after the batch of the one state event at height 101.
\<close>

definition example_env :: "(nat \<Rightarrow> string \<Rightarrow> error + int) \<Rightarrow> env" where
  "example_env rpc =
     \<lparr> client = True,
       getContract = rpc,
       dbFails = (\<lambda>n. None),
       sendWebhooks = True,
       findWasmCodeIdsByKeys = (\<lambda>ks. if ''cl-vault'' \<in> set ks then [100] else []),
       dbKeyForKeys = (\<lambda>k. join_bytes (map of_char k)),
       transformParsedStateEvents = (\<lambda>evs. []) \<rparr>"

definition example_contract :: "string \<Rightarrow> int \<Rightarrow> contract" where
  "example_contract a c =
     \<lparr> address = a, codeId = c, admin = None, creator = None, label = None,
       instantiatedAtBlockHeight = 90, instantiatedAtBlockTimeUnixMs = 1699999940000,
       instantiatedAtBlockTimestamp = Date 1699999940000 \<rparr>"

definition example_state_event :: "string \<Rightarrow> int \<Rightarrow> string \<Rightarrow> stateData" where
  "example_state_event a h k =
     \<lparr> se_codeId = 0, se_contractAddress = a, se_blockHeight = h,
       se_blockTimeUnixMs = 1700000000000 + 6000 * (h - 100),
       se_key = k, se_value = ''1'', se_valueJson = JNum 1, se_delete = False \<rparr>"


definition example_world :: world where
  "example_world =
     \<lparr> blocks = [], contracts = [], wasmStateEvents = [],
       stateSingleton = Some \<lparr> lastWasmBlockHeightExported = Some 50, latestBlockHeight = 60,
                               latestBlockTimeUnixMs = 1699999760000 \<rparr>,
       codeIdCache = [], errorLog = [], wasmCodeTrackersQueue = [], webhookQueue = [],
       rpcCalls = 0, dbCalls = 0 \<rparr>"


section \<open>Properties\<close>

subsection \<open>Evaluating the libraries\<close>

lemmas b64_defs = std_fromBase64_def b64val_def

lemmas dec_defs = BigInt_toString_def decimal.simps digit_def join_bytes_def

lemma std_select [simp]:
  "fromBase64 std = std_fromBase64" "fromUtf8 std = std_fromUtf8" "toBech32 std = std_toBech32"
  "ContractInfo_decode std = example_ContractInfo_decode" "JSON_parse std = example_JSON_parse"
  by (simp_all add: std_def)

lemma b64_contract_key:
  "std_fromBase64 ''AgECAwQFBgcICQoLDA0ODxAREhMUFRYXGBkaGxwdHh8g'' = Inr (0x02 # address32)"
  by (simp add: b64_defs address32_def)

lemma b64_state_key:
  "std_fromBase64 ''AwECAwQFBgcICQoLDA0ODxAREhMUFRYXGBkaGxwdHh8gAQID''
     = Inr (0x03 # address32 @ [1, 2, 3])"
  by (simp add: b64_defs address32_def)

lemma b64_terra_key:
  "std_fromBase64 ''BRQBAgMEBQYHCAkKCwwNDg8QERITFAkJ'' = Inr (0x05 # 0x14 # address20 @ [9, 9])"
  by (simp add: b64_defs address20_def)

lemma b64_one_byte_key: "std_fromBase64 ''BQ=='' = Inr [0x05]"
  by (simp add: b64_defs)



lemma b64_ff: "std_fromBase64 ''/w=='' = Inr [0xFF]"
  by (simp add: b64_defs)

lemma b64_1234: "std_fromBase64 ''1234'' = Inr [0xD7, 0x6D, 0xF8]"
  by (simp add: b64_defs)

lemma b64_json: "std_fromBase64 ''eyJ4IjoxfQ=='' = Inr [0x7B, 0x22, 0x78, 0x22, 0x3A, 0x31, 0x7D]"
  by (simp add: b64_defs)

lemma utf8_1234: "std_fromUtf8 [0xD7, 0x6D, 0xF8] = Inl (Error ''The encoded data was not valid.'')"
  by (simp add: std_fromUtf8_def utf8_cont_def)

lemma utf8_ff: "std_fromUtf8 [0xFF] = Inl (Error ''The encoded data was not valid.'')"
  by (simp add: std_fromUtf8_def)

lemma utf8_json:
  "std_fromUtf8 [0x7B, 0x22, 0x78, 0x22, 0x3A, 0x31, 0x7D]
     = Inr [CHR ''{'', CHR 0x22, CHR ''x'', CHR 0x22, CHR '':'', CHR ''1'', CHR ''}'']"
  by (simp add: std_fromUtf8_def char_of_byte_def strip_bom_def)

lemma bech32_address32:
  "std_toBech32 ''juno'' address32
     = Inr ''juno1qypqxpq9qcrsszg2pvxq6rs0zqg3yyc5z5tpwxqergd3c8g7rusqr6tjsm''"
  by code_simp

lemma bech32_address20:
  "std_toBech32 ''terra'' address20 = Inr ''terra1qypqxpq9qcrsszg2pvxq6rs0zqg3yyc5exk7yu''"
  by code_simp

lemma bech32_empty: "std_toBech32 ''terra'' [] = Inr ''terra1h29840''"
  by code_simp

subsection \<open>Decoding a key\<close>

lemma unat_len: "n < 256 \<Longrightarrow> unat (of_nat n :: byte) = n"
  by (simp add: unat_of_nat)

lemma addrEnd_wasmKey:
  assumes "addressLength_ok chainId addr"
  shows "js_add (if isTerraClassic chainId then 2 else 1)
           (if isTerraClassic chainId then map_option unat (at (wasmKey chainId p addr rest) 1)
            else Some DEFAULT_CONTRACT_BYTE_LENGTH)
         = Some ((if isTerraClassic chainId then 2 else 1) + length addr)"
  using assms by (simp add: addressLength_ok_def wasmKey_def js_add_def at_def unat_len)

lemma at0_wasmKey: "at (wasmKey chainId p addr rest) 0 = Some p"
  by (simp add: wasmKey_def at_def)

lemma length_wasmKey:
  "length (wasmKey chainId p addr rest)
     = (if isTerraClassic chainId then 2 else 1) + length addr + length rest"
  by (simp add: wasmKey_def)

lemma slice_wasmKey:
  "slice (wasmKey chainId p addr rest) (Some (if isTerraClassic chainId then 2 else 1))
      (Some ((if isTerraClassic chainId then 2 else 1) + length addr)) = addr"
  by (simp add: wasmKey_def slice_def toInteger_def Let_def)

lemma slice_from_wasmKey:
  "slice_from (wasmKey chainId p addr rest)
      (Some ((if isTerraClassic chainId then 2 else 1) + length addr)) = rest"
  by (simp add: wasmKey_def slice_from_def toInteger_def)

lemma prefixes_differ: "CONTRACT_KEY_PREFIX chainId \<noteq> CONTRACT_STORE_PREFIX chainId"
  by (simp add: CONTRACT_KEY_PREFIX_def CONTRACT_STORE_PREFIX_def)

text \<open>
  On a key of one of the two layouts, \<open>match\<close> takes the state branch when the prefix is
  the store prefix, and also when it is the contract-info prefix and the operation is not
  \<open>write\<close>.
\<close>

lemma match_state_branch:
  assumes key: "fromBase64 l (tr_key tr) = Inr (wasmKey chainId p addr rest)"
      and p: "p = CONTRACT_STORE_PREFIX chainId \<or>
              p = CONTRACT_KEY_PREFIX chainId \<and> tr_operation tr \<noteq> ''write''"
      and len: "addressLength_ok chainId addr"
      and a: "toBech32 l pre addr = Inr a"
  shows "match l chainId pre tr =
     (let val = (if tr_value tr = [] then tr_value tr
                 else (case fromBase64 l (tr_value tr) of
                         Inl err \<Rightarrow> tr_value tr
                       | Inr raw \<Rightarrow>
                           (case fromUtf8 l raw of Inl err \<Rightarrow> tr_value tr | Inr s \<Rightarrow> s)));
          valueJson = (if tr_operation tr \<noteq> ''delete'' \<and> val \<noteq> []
                       then (case JSON_parse l val of Inl err \<Rightarrow> JNull | Inr j \<Rightarrow> j)
                       else JNull)
      in Inr (Some (StateEvent
           (join '':'' [''state'', BigInt_toString (tr_blockHeight tr), a, join_bytes rest])
           \<lparr> se_codeId = 0, se_contractAddress = a, se_blockHeight = tr_blockHeight tr,
             se_blockTimeUnixMs = tr_blockTimeUnixMs tr, se_key = join_bytes rest,
             se_value = val, se_valueJson = valueJson,
             se_delete = (tr_operation tr = ''delete'') \<rparr>)))"
  using p prefixes_differ [of chainId]
  by (auto simp add: match_def key addrEnd_wasmKey [OF len] at0_wasmKey length_wasmKey js_less_def
      slice_wasmKey slice_from_wasmKey a Let_def simp del: join.simps)


lemma wasmKey_standard: "wasmKey ''juno-1'' p addr rest = p # addr @ rest"
  by (simp add: wasmKey_def isTerraClassic_def)

lemma wasmKey_terra: "wasmKey ''columbus-5'' p addr rest = p # of_nat (length addr) # addr @ rest"
  by (simp add: wasmKey_def isTerraClassic_def)

lemma addressLength_ok_32: "addressLength_ok ''juno-1'' address32"
  by (simp add: addressLength_ok_def isTerraClassic_def DEFAULT_CONTRACT_BYTE_LENGTH_def
      address32_def)

lemma prefixes_standard:
  "CONTRACT_KEY_PREFIX ''juno-1'' = 0x02" "CONTRACT_STORE_PREFIX ''juno-1'' = 0x03"
  by (simp_all add: CONTRACT_KEY_PREFIX_def CONTRACT_STORE_PREFIX_def isTerraClassic_def)

lemma prefixes_terra:
  "CONTRACT_KEY_PREFIX ''columbus-5'' = 0x04" "CONTRACT_STORE_PREFIX ''columbus-5'' = 0x05"
  by (simp_all add: CONTRACT_KEY_PREFIX_def CONTRACT_STORE_PREFIX_def isTerraClassic_def)

subsection \<open>The matcher on contract-info keys\<close>



text \<open>
  Claim C10. On a trace record whose decoded key is a contract-info key (the contract-info
  prefix, on Terra Classic the length byte, and the address) and whose operation is
  \<open>delete\<close>, \<open>match\<close> does not return nothing: it returns a state event with
  \<open>delete = true\<close>, \<open>codeId = 0\<close> and the empty string as its key.
\<close>

theorem match_contract_info_delete:
  assumes key: "fromBase64 l (tr_key tr)
                  = Inr (wasmKey chainId (CONTRACT_KEY_PREFIX chainId) addr [])"
      and len: "addressLength_ok chainId addr"
      and op: "tr_operation tr = ''delete''"
      and a: "toBech32 l pre addr = Inr contractAddress"
  shows "\<exists>ident d. match l chainId pre tr = Inr (Some (StateEvent ident d)) \<and>
           se_delete d \<and> se_codeId d = 0 \<and> se_key d = [] \<and>
           se_contractAddress d = contractAddress"
proof -
  have p: "CONTRACT_KEY_PREFIX chainId = CONTRACT_STORE_PREFIX chainId \<or>
           CONTRACT_KEY_PREFIX chainId = CONTRACT_KEY_PREFIX chainId \<and> tr_operation tr \<noteq> ''write''"
    by (simp add: op)
  show ?thesis
    by (simp add: match_state_branch [OF key p len a] op Let_def join_bytes_def)
qed

text \<open>The deletion of the contract info of a contract on a standard chain.\<close>

theorem match_contract_info_delete_witness:
  "match std ''juno-1'' ''juno''
     \<lparr> tr_operation = ''delete'',
       tr_key = ''AgECAwQFBgcICQoLDA0ODxAREhMUFRYXGBkaGxwdHh8g'',
       tr_value = [],
       tr_blockHeight = 100, tr_blockTimeUnixMs = 1700000000000 \<rparr>
   = Inr (Some (StateEvent
       ''state:100:juno1qypqxpq9qcrsszg2pvxq6rs0zqg3yyc5z5tpwxqergd3c8g7rusqr6tjsm:''
       \<lparr> se_codeId = 0,
         se_contractAddress = ''juno1qypqxpq9qcrsszg2pvxq6rs0zqg3yyc5z5tpwxqergd3c8g7rusqr6tjsm'',
         se_blockHeight = 100, se_blockTimeUnixMs = 1700000000000,
         se_key = [], se_value = [], se_valueJson = JNull, se_delete = True \<rparr>))"
proof -
  let ?tr = "\<lparr> tr_operation = ''delete'',
       tr_key = ''AgECAwQFBgcICQoLDA0ODxAREhMUFRYXGBkaGxwdHh8g'',
       tr_value = [],
       tr_blockHeight = 100, tr_blockTimeUnixMs = 1700000000000 \<rparr>"
  have key: "fromBase64 std (tr_key ?tr)
               = Inr (wasmKey ''juno-1'' (CONTRACT_KEY_PREFIX ''juno-1'') address32 [])"
    by (simp add: b64_contract_key wasmKey_standard prefixes_standard)
  have a: "toBech32 std ''juno'' address32
             = Inr ''juno1qypqxpq9qcrsszg2pvxq6rs0zqg3yyc5z5tpwxqergd3c8g7rusqr6tjsm''"
    by (simp add: bech32_address32)
  have op: "tr_operation ?tr = ''delete''" by simp
  obtain ident d where m: "match std ''juno-1'' ''juno'' ?tr = Inr (Some (StateEvent ident d))"
      and d: "se_delete d" "se_codeId d = 0" "se_key d = []"
    using match_contract_info_delete [OF key addressLength_ok_32 op a] by blast
  have "match std ''juno-1'' ''juno'' ?tr = Inr (Some (StateEvent
       ''state:100:juno1qypqxpq9qcrsszg2pvxq6rs0zqg3yyc5z5tpwxqergd3c8g7rusqr6tjsm:''
       \<lparr> se_codeId = 0,
         se_contractAddress = ''juno1qypqxpq9qcrsszg2pvxq6rs0zqg3yyc5z5tpwxqergd3c8g7rusqr6tjsm'',
         se_blockHeight = 100, se_blockTimeUnixMs = 1700000000000,
         se_key = [], se_value = [], se_valueJson = JNull, se_delete = True \<rparr>))"
    by (simp add: match_state_branch [OF key _ addressLength_ok_32 a] dec_defs Let_def)
  with m d show ?thesis by simp
qed

subsection \<open>The matcher on state keys\<close>

text \<open>
  Claim C6. On Terra Classic (chain \<open>columbus-5\<close>) the prefixes are \<open>0x04\<close> and
  \<open>0x05\<close>; \<open>match\<close> reads the length of the address in the byte at offset 1, takes
  that many of the following bytes as the contract address and the remaining bytes as the
  key, so that the key \<open>[9, 9]\<close> is rendered as \<open>9,9\<close>.
\<close>

theorem match_terra_classic_key:
  assumes key: "fromBase64 l (tr_key tr) = Inr (0x05 # of_nat (length addr) # addr @ userKey)"
      and len: "length addr < 256"
      and a: "toBech32 l pre addr = Inr contractAddress"
  shows "CONTRACT_KEY_PREFIX ''columbus-5'' = 0x04 \<and>
         CONTRACT_STORE_PREFIX ''columbus-5'' = 0x05 \<and>
         (\<exists>ident d. match l ''columbus-5'' pre tr = Inr (Some (StateEvent ident d)) \<and>
            se_contractAddress d = contractAddress \<and>
            se_key d = join_bytes userKey \<and>
            (userKey = [9, 9] \<longrightarrow> se_key d = ''9,9''))"
proof -
  have key': "fromBase64 l (tr_key tr)
                = Inr (wasmKey ''columbus-5'' (CONTRACT_STORE_PREFIX ''columbus-5'') addr userKey)"
    by (simp add: key wasmKey_terra prefixes_terra)
  have len': "addressLength_ok ''columbus-5'' addr"
    by (simp add: addressLength_ok_def isTerraClassic_def len)
  have 99: "join_bytes [9, 9] = ''9,9''"
    by (simp add: dec_defs)
  show ?thesis
    by (auto simp add: match_state_branch [OF key' _ len' a] prefixes_terra Let_def 99
        simp del: join.simps)
qed

lemma length_address20: "length address20 = 20"
  by (simp add: address20_def)

text \<open>The key \<open>0x05 || 0x14 || address20 || [9, 9]\<close>, written at block 7.\<close>

theorem match_terra_classic_key_witness:
  "match std ''columbus-5'' ''terra''
     \<lparr> tr_operation = ''write'',
       tr_key = ''BRQBAgMEBQYHCAkKCwwNDg8QERITFAkJ'',
       tr_value = ''eyJ4IjoxfQ=='',
       tr_blockHeight = 7, tr_blockTimeUnixMs = 1650000000000 \<rparr>
   = Inr (Some (StateEvent
       ''state:7:terra1qypqxpq9qcrsszg2pvxq6rs0zqg3yyc5exk7yu:9,9''
       \<lparr> se_codeId = 0,
         se_contractAddress = ''terra1qypqxpq9qcrsszg2pvxq6rs0zqg3yyc5exk7yu'',
         se_blockHeight = 7, se_blockTimeUnixMs = 1650000000000,
         se_key = ''9,9'',
         se_value = [CHR ''{'', CHR 0x22, CHR ''x'', CHR 0x22, CHR '':'', CHR ''1'', CHR ''}''],
         se_valueJson = JObj [(''x'', JNum 1)], se_delete = False \<rparr>))"
proof -
  let ?tr = "\<lparr> tr_operation = ''write'',
       tr_key = ''BRQBAgMEBQYHCAkKCwwNDg8QERITFAkJ'',
       tr_value = ''eyJ4IjoxfQ=='',
       tr_blockHeight = 7, tr_blockTimeUnixMs = 1650000000000 \<rparr>"
  have key: "fromBase64 std (tr_key ?tr) = Inr (0x05 # of_nat (length address20) # address20 @ [9, 9])"
    by (simp add: b64_terra_key length_address20)
  have len: "length address20 < 256"
    by (simp add: length_address20)
  have a: "toBech32 std ''terra'' address20 = Inr ''terra1qypqxpq9qcrsszg2pvxq6rs0zqg3yyc5exk7yu''"
    by (simp add: bech32_address20)
  obtain ident d where m: "match std ''columbus-5'' ''terra'' ?tr = Inr (Some (StateEvent ident d))"
      and d: "se_contractAddress d = ''terra1qypqxpq9qcrsszg2pvxq6rs0zqg3yyc5exk7yu''"
             "se_key d = ''9,9''"
    using match_terra_classic_key [OF key len a] by blast
  have key': "fromBase64 std (tr_key ?tr)
                = Inr (wasmKey ''columbus-5'' (CONTRACT_STORE_PREFIX ''columbus-5'') address20 [9, 9])"
    using key by (simp add: wasmKey_terra prefixes_terra)
  have len': "addressLength_ok ''columbus-5'' address20"
    by (simp add: addressLength_ok_def isTerraClassic_def len)
  have "match std ''columbus-5'' ''terra'' ?tr = Inr (Some (StateEvent
       ''state:7:terra1qypqxpq9qcrsszg2pvxq6rs0zqg3yyc5exk7yu:9,9''
       \<lparr> se_codeId = 0,
         se_contractAddress = ''terra1qypqxpq9qcrsszg2pvxq6rs0zqg3yyc5exk7yu'',
         se_blockHeight = 7, se_blockTimeUnixMs = 1650000000000,
         se_key = ''9,9'',
         se_value = [CHR ''{'', CHR 0x22, CHR ''x'', CHR 0x22, CHR '':'', CHR ''1'', CHR ''}''],
         se_valueJson = JObj [(''x'', JNum 1)], se_delete = False \<rparr>))"
    by (simp add: match_state_branch [OF key' _ len' a] dec_defs Let_def b64_json utf8_json
        example_JSON_parse_def)
  with m d show ?thesis by simp
qed

text \<open>
  Claim C5, as amended. On a trace record whose decoded key is a state key, \<open>match\<close>
  returns a state event such that: when the base64-decoded value is not UTF-8, the value of
  the event is the value string of the record (the base64 text) as it is; when the value is
  UTF-8, the value of the event is the decoded string, and \<open>valueJson\<close> is its parsed JSON
  when the operation is not \<open>delete\<close>, the string is not empty and it parses as JSON;
  \<open>valueJson\<close> is null for every \<open>delete\<close>, and whenever the value of the event does
  not parse as JSON.
\<close>

theorem match_state_value:
  assumes key: "fromBase64 l (tr_key tr)
                  = Inr (wasmKey chainId (CONTRACT_STORE_PREFIX chainId) addr userKey)"
      and len: "addressLength_ok chainId addr"
      and a: "toBech32 l pre addr = Inr contractAddress"
  shows "\<exists>ident d. match l chainId pre tr = Inr (Some (StateEvent ident d)) \<and>
           (\<forall>raw err. fromBase64 l (tr_value tr) = Inr raw \<and> fromUtf8 l raw = Inl err \<longrightarrow>
                      se_value d = tr_value tr) \<and>
           (\<forall>raw s. tr_value tr \<noteq> [] \<and> fromBase64 l (tr_value tr) = Inr raw \<and>
                    fromUtf8 l raw = Inr s \<longrightarrow>
                    se_value d = s \<and>
                    (\<forall>j. tr_operation tr \<noteq> ''delete'' \<and> s \<noteq> [] \<and> JSON_parse l s = Inr j \<longrightarrow>
                         se_valueJson d = j)) \<and>
           (tr_operation tr = ''delete'' \<longrightarrow> se_valueJson d = JNull) \<and>
           (\<forall>err. JSON_parse l (se_value d) = Inl err \<longrightarrow> se_valueJson d = JNull)"
  by (auto simp add: match_state_branch [OF key _ len a] Let_def simp del: join.simps)

text \<open>A state write whose value is the byte \<open>0xFF\<close>, which is not UTF-8.\<close>

theorem match_state_value_witness:
  "match std ''juno-1'' ''juno''
     \<lparr> tr_operation = ''write'',
       tr_key = ''AwECAwQFBgcICQoLDA0ODxAREhMUFRYXGBkaGxwdHh8gAQID'',
       tr_value = ''/w=='',
       tr_blockHeight = 101, tr_blockTimeUnixMs = 1700000006000 \<rparr>
   = Inr (Some (StateEvent
       ''state:101:juno1qypqxpq9qcrsszg2pvxq6rs0zqg3yyc5z5tpwxqergd3c8g7rusqr6tjsm:1,2,3''
       \<lparr> se_codeId = 0,
         se_contractAddress = ''juno1qypqxpq9qcrsszg2pvxq6rs0zqg3yyc5z5tpwxqergd3c8g7rusqr6tjsm'',
         se_blockHeight = 101, se_blockTimeUnixMs = 1700000006000,
         se_key = ''1,2,3'', se_value = ''/w=='', se_valueJson = JNull, se_delete = False \<rparr>))"
proof -
  let ?tr = "\<lparr> tr_operation = ''write'',
       tr_key = ''AwECAwQFBgcICQoLDA0ODxAREhMUFRYXGBkaGxwdHh8gAQID'',
       tr_value = ''/w=='',
       tr_blockHeight = 101, tr_blockTimeUnixMs = 1700000006000 \<rparr>"
  have key: "fromBase64 std (tr_key ?tr)
               = Inr (wasmKey ''juno-1'' (CONTRACT_STORE_PREFIX ''juno-1'') address32 [1, 2, 3])"
    by (simp add: b64_state_key wasmKey_standard prefixes_standard)
  have a: "toBech32 std ''juno'' address32
             = Inr ''juno1qypqxpq9qcrsszg2pvxq6rs0zqg3yyc5z5tpwxqergd3c8g7rusqr6tjsm''"
    by (simp add: bech32_address32)
  obtain ident d where m: "match std ''juno-1'' ''juno'' ?tr = Inr (Some (StateEvent ident d))"
      and v: "\<forall>raw err. fromBase64 std (tr_value ?tr) = Inr raw \<and> fromUtf8 std raw = Inl err \<longrightarrow>
                 se_value d = tr_value ?tr"
      and j: "\<forall>err. JSON_parse std (se_value d) = Inl err \<longrightarrow> se_valueJson d = JNull"
    using match_state_value [OF key addressLength_ok_32 a] by blast
  from v have "se_value d = ''/w==''"
    by (simp add: b64_ff utf8_ff)
  with j have "se_valueJson d = JNull"
    by (simp add: example_JSON_parse_def)
  have "match std ''juno-1'' ''juno'' ?tr = Inr (Some (StateEvent
       ''state:101:juno1qypqxpq9qcrsszg2pvxq6rs0zqg3yyc5z5tpwxqergd3c8g7rusqr6tjsm:1,2,3''
       \<lparr> se_codeId = 0,
         se_contractAddress = ''juno1qypqxpq9qcrsszg2pvxq6rs0zqg3yyc5z5tpwxqergd3c8g7rusqr6tjsm'',
         se_blockHeight = 101, se_blockTimeUnixMs = 1700000006000,
         se_key = ''1,2,3'', se_value = ''/w=='', se_valueJson = JNull, se_delete = False \<rparr>))"
    by (simp add: match_state_branch [OF key _ addressLength_ok_32 a] dec_defs Let_def
        b64_ff utf8_ff example_JSON_parse_def)
  with m show ?thesis by simp
qed

text \<open>
  Claim C5 as stated fails on the value \<open>1234\<close> (base64 of the bytes \<open>D7 6D F8\<close>, which
  are not UTF-8): the value of the event is the base64 text and not the three raw bytes, and
  \<open>valueJson\<close> is the number 1234 and not null.
\<close>

theorem match_non_utf8_value_counterexample:
  "match std ''juno-1'' ''juno''
     \<lparr> tr_operation = ''write'',
       tr_key = ''AwECAwQFBgcICQoLDA0ODxAREhMUFRYXGBkaGxwdHh8gAQID'',
       tr_value = ''1234'',
       tr_blockHeight = 101, tr_blockTimeUnixMs = 1700000006000 \<rparr>
   = Inr (Some (StateEvent
       ''state:101:juno1qypqxpq9qcrsszg2pvxq6rs0zqg3yyc5z5tpwxqergd3c8g7rusqr6tjsm:1,2,3''
       \<lparr> se_codeId = 0,
         se_contractAddress = ''juno1qypqxpq9qcrsszg2pvxq6rs0zqg3yyc5z5tpwxqergd3c8g7rusqr6tjsm'',
         se_blockHeight = 101, se_blockTimeUnixMs = 1700000006000,
         se_key = ''1,2,3'', se_value = ''1234'', se_valueJson = JNum 1234,
         se_delete = False \<rparr>)) \<and>
   fromBase64 std ''1234'' = Inr [0xD7, 0x6D, 0xF8] \<and>
   fromUtf8 std [0xD7, 0x6D, 0xF8] = Inl (Error ''The encoded data was not valid.'') \<and>
   ''1234'' \<noteq> map char_of_byte [0xD7, 0x6D, 0xF8] \<and>
   JNum 1234 \<noteq> JNull"
proof -
  let ?tr = "\<lparr> tr_operation = ''write'',
       tr_key = ''AwECAwQFBgcICQoLDA0ODxAREhMUFRYXGBkaGxwdHh8gAQID'',
       tr_value = ''1234'',
       tr_blockHeight = 101, tr_blockTimeUnixMs = 1700000006000 \<rparr>"
  have key: "fromBase64 std (tr_key ?tr)
               = Inr (wasmKey ''juno-1'' (CONTRACT_STORE_PREFIX ''juno-1'') address32 [1, 2, 3])"
    by (simp add: b64_state_key wasmKey_standard prefixes_standard)
  have a: "toBech32 std ''juno'' address32
             = Inr ''juno1qypqxpq9qcrsszg2pvxq6rs0zqg3yyc5z5tpwxqergd3c8g7rusqr6tjsm''"
    by (simp add: bech32_address32)
  show ?thesis
    by (simp add: match_state_branch [OF key _ addressLength_ok_32 a] dec_defs Let_def
        b64_1234 utf8_1234 example_JSON_parse_def)
qed

text \<open>Too short a key is dropped on a standard chain, and on Terra Classic when it has its length byte.\<close>

lemma match_short_key_standard:
  assumes "\<not> isTerraClassic chainId"
      and "fromBase64 l (tr_key tr) = Inr keyData"
      and "length keyData < 1 + DEFAULT_CONTRACT_BYTE_LENGTH"
  shows "match l chainId pre tr = Inr None"
  using assms by (simp add: match_def js_less_def js_add_def Let_def)

lemma match_short_key_terra:
  assumes "isTerraClassic chainId"
      and "fromBase64 l (tr_key tr) = Inr (p # n # rest)"
      and "length rest < unat n"
  shows "match l chainId pre tr = Inr None"
  using assms by (simp add: match_def js_less_def js_add_def at_def Let_def)

text \<open>
  Claim C8 fails on Terra Classic for a key of one byte: \<open>keyData[1]\<close> is \<open>undefined\<close>,
  the length test compares with \<open>NaN\<close> and is false, and \<open>match\<close> returns a state event
  whose address encodes no bytes and whose key is the whole key.
\<close>

theorem match_terra_one_byte_key:
  "match std ''columbus-5'' ''terra''
     \<lparr> tr_operation = ''write'', tr_key = ''BQ=='', tr_value = [],
       tr_blockHeight = 7, tr_blockTimeUnixMs = 1650000000000 \<rparr>
   = Inr (Some (StateEvent ''state:7:terra1h29840:5''
       \<lparr> se_codeId = 0, se_contractAddress = ''terra1h29840'',
         se_blockHeight = 7, se_blockTimeUnixMs = 1650000000000,
         se_key = ''5'', se_value = [], se_valueJson = JNull, se_delete = False \<rparr>))"
  by (simp add: match_def b64_one_byte_key bech32_empty isTerraClassic_def at_def js_add_def
      js_less_def slice_def slice_from_def toInteger_def CONTRACT_STORE_PREFIX_def
      CONTRACT_KEY_PREFIX_def dec_defs Let_def)

subsection \<open>The code-ID resolver\<close>

























subsection \<open>The allowlist filter\<close>

lemma keepStateEvent_iff:
  "keepStateEvent rules cs ev \<longleftrightarrow>
     (case find (\<lambda>c. address c = se_contractAddress ev) cs of
        None \<Rightarrow> True
      | Some c \<Rightarrow>
          codeId c = 0 \<or>
          (\<forall>r\<in>set rules. codeId c \<in> set (codeIds r) \<longrightarrow> se_key ev \<in> set (stateKeys r)))"
  by (auto simp add: keepStateEvent_def list_ex_iff split: option.splits)

text \<open>
  Claim C1. When the chain has an allowlist, the filter keeps exactly the state events \<open>E\<close>
  such that the contract of \<open>E\<close> is unknown or has code ID 0, or the key of \<open>E\<close> is among
  the state keys of every rule whose code IDs contain the code ID of the contract; the
  events stay in their order. (The code ID is that of the contract rows read after the code
  IDs were resolved.)
\<close>

theorem allowlist_filter:
  assumes "allowlist e chainId = Some rules"
  shows "filterStateEvents (allowlist e chainId) cs stateEvents =
           filter (\<lambda>ev. case find (\<lambda>c. address c = se_contractAddress ev) cs of
                          None \<Rightarrow> True
                        | Some c \<Rightarrow>
                            codeId c = 0 \<or>
                            (\<forall>r\<in>set rules. codeId c \<in> set (codeIds r) \<longrightarrow>
                                            se_key ev \<in> set (stateKeys r)))
                  stateEvents"
proof (cases "rules = []")
  case True
  then show ?thesis
    by (simp add: assms filterStateEvents_def split: option.splits)
next
  case False
  have "keepStateEvent rules cs =
          (\<lambda>ev. case find (\<lambda>c. address c = se_contractAddress ev) cs of
                  None \<Rightarrow> True
                | Some c \<Rightarrow>
                    codeId c = 0 \<or>
                    (\<forall>r\<in>set rules. codeId c \<in> set (codeIds r) \<longrightarrow>
                                    se_key ev \<in> set (stateKeys r)))"
    by (rule ext) (rule keepStateEvent_iff)
  with False show ?thesis
    by (simp add: assms filterStateEvents_def)
qed

lemma allowlist_osmosis:
  "allowlist (example_env rpc) ''osmosis-1'' =
     Some [\<lparr> codeIdsKeys = [''levana-finance'', ''cl-vault'', ''icns-resolver'', ''skip-api'',
                             ''calc-dca'', ''rate-limiter''],
             stateKeys = [''99,111,110,116,114,97,99,116,95,105,110,102,111''],
             codeIds = [100] \<rparr>]"
  by (simp add: allowlist_def stateEventAllowlist_def CONTRACT_STATE_EVENT_KEY_ALLOWLIST_def
      example_env_def dec_defs)

text \<open>
  On \<open>osmosis-1\<close>, where the rule resolves to the code ID 100: of the two events of a
  contract with code ID 100 only the one with key \<open>contract_info\<close> is kept; the events of a
  contract with another code ID, with code ID 0, and without a row are kept.
\<close>

theorem allowlist_filter_witness:
  "filterStateEvents (allowlist (example_env (\<lambda>n a. Inr 100)) ''osmosis-1'')
     [example_contract ''osmo1vault'' 100, example_contract ''osmo1other'' 7,
      example_contract ''osmo1unknown'' 0]
     [example_state_event ''osmo1vault'' 100 ''99,111,110,116,114,97,99,116,95,105,110,102,111'',
      example_state_event ''osmo1vault'' 100 ''98,97,108,97,110,99,101,115'',
      example_state_event ''osmo1other'' 100 ''98,97,108,97,110,99,101,115'',
      example_state_event ''osmo1unknown'' 100 ''98,97,108,97,110,99,101,115'',
      example_state_event ''osmo1norow'' 100 ''98,97,108,97,110,99,101,115'']
   = [example_state_event ''osmo1vault'' 100 ''99,111,110,116,114,97,99,116,95,105,110,102,111'',
      example_state_event ''osmo1other'' 100 ''98,97,108,97,110,99,101,115'',
      example_state_event ''osmo1unknown'' 100 ''98,97,108,97,110,99,101,115'',
      example_state_event ''osmo1norow'' 100 ''98,97,108,97,110,99,101,115'']"
  by (simp add: allowlist_filter [OF allowlist_osmosis] example_contract_def
      example_state_event_def)

text \<open>
  The filter is the one that \<open>exportContractsAndEvents\<close> applies: when the export returns,
  the variable \<open>stateEvents\<close> holds the events that the filter kept, for the contracts that
  the export returns, and these are the events that were written to the database.
\<close>

lemma bindE_Inr:
  "bindE m f s = (Inr y, s') \<Longrightarrow> \<exists>x s1. m s = (Inr x, s1) \<and> f x s1 = (Inr y, s')"
  by (auto simp add: bindE_def split: prod.splits sum.splits)

lemma inWorld_Inr:
  "inWorld m (se, w) = (r, (se', w')) \<Longrightarrow> se' = se \<and> m w = (r, w')"
  by (auto simp add: inWorld_def split: prod.splits)

lemma db_events_Inr:
  "db e (WasmStateEvent_bulkCreate rows) w = (Inr evs, w') \<Longrightarrow> evs = rows"
  by (auto simp add: db_def WasmStateEvent_bulkCreate_def Let_def split: option.splits)

lemma exportContractsAndEvents_filters:
  assumes "exportContractsAndEvents e chainId us (stateEvents, w)
             = (Inr (cs, exported), (stateEvents', w'))"
  shows "stateEvents' = filterStateEvents (allowlist e chainId) cs stateEvents \<and>
         exported = stateEvents'"
  using assms unfolding exportContractsAndEvents_def
  by (auto dest!: bindE_Inr inWorld_Inr db_events_Inr simp add: ret_def)

subsection \<open>The row of the State model through a batch\<close>

lemma keepsD: "keeps proj m \<Longrightarrow> m s = (r, s') \<Longrightarrow> stateSingleton (proj s') = stateSingleton (proj s)"
  by (auto simp add: keeps_def dest: spec [of _ s])

lemma keepsI: "(\<And>s. stateSingleton (proj (snd (m s))) = stateSingleton (proj s)) \<Longrightarrow> keeps proj m"
  by (simp add: keeps_def)

lemma keeps_ret: "keeps proj (ret x)"
  by (simp add: keeps_def ret_def)

lemma keeps_throw: "keeps proj (throw err)"
  by (simp add: keeps_def throw_def)

lemma keeps_bindE: "keeps proj m \<Longrightarrow> (\<And>x. keeps proj (f x)) \<Longrightarrow> keeps proj (bindE m f)"
  by (auto simp add: keeps_def bindE_def split: prod.splits sum.splits)
     (metis snd_conv)+

lemma keeps_if: "keeps proj m \<Longrightarrow> keeps proj n \<Longrightarrow> keeps proj (if b then m else n)"
  by simp

lemma keeps_tries: "keeps proj f \<Longrightarrow> keeps proj (tries n f)"
proof (induction n)
  case 0
  then show ?case by (simp add: keeps_def)
next
  case (Suc n)
  show ?case
  proof (rule keepsI)
    fix s
    obtain r s1 where f: "f s = (r, s1)" by (cases "f s")
    have 1: "stateSingleton (proj s1) = stateSingleton (proj s)"
      using keepsD [OF Suc.prems f] .
    show "stateSingleton (proj (snd (tries (Suc n) f s))) = stateSingleton (proj s)"
    proof (cases r)
      case (Inl err)
      obtain r2 s2 where t: "tries n f s1 = (r2, s2)" by (cases "tries n f s1")
      from keepsD [OF Suc.IH [OF Suc.prems] t] 1 show ?thesis
        by (simp add: f Inl t)
    next
      case (Inr x)
      then show ?thesis by (simp add: f 1)
    qed
  qed
qed

lemma keeps_retry: "keeps proj f \<Longrightarrow> keeps proj (retry n f)"
  by (simp add: retry_def keeps_tries)

lemma keeps_db:
  "(\<And>w. stateSingleton (snd (op w)) = stateSingleton w) \<Longrightarrow> keeps id (db e op)"
  by (auto simp add: keeps_def db_def Let_def split: option.splits prod.splits)
     (metis snd_conv world.select_convs world.surjective world.update_convs)

lemma keeps_db_Block: "keeps id (db e (Block_createMany rows))"
  by (rule keeps_db) (simp add: Block_createMany_def)

lemma keeps_db_Contract: "keeps id (db e (Contract_bulkCreate onDuplicate rows))"
  by (rule keeps_db) (simp add: Contract_bulkCreate_def)

lemma keeps_db_findAll: "keeps id (db e (Contract_findAll as))"
  by (rule keeps_db) (simp add: Contract_findAll_def)

lemma keeps_db_getContractRow: "keeps id (db e (getContractRow a))"
  by (rule keeps_db) (simp add: getContractRow_def)

lemma keeps_db_events: "keeps id (db e (WasmStateEvent_bulkCreate rows))"
  by (rule keeps_db) (simp add: WasmStateEvent_bulkCreate_def)

lemma keeps_db_getSingleton: "keeps id (db e State_getSingleton)"
  by (rule keeps_db) (simp add: State_getSingleton_def)

lemma keeps_db_webhooks: "keeps id (db e (AccountWebhook_queueWebhooks evs))"
  by (rule keeps_db) (simp add: AccountWebhook_queueWebhooks_def)

lemma keeps_db_transform: "keeps id (db e (\<lambda>w. (transformParsedStateEvents e evs, w)))"
  by (rule keeps_db) simp

lemma keeps_tracker:
  "keeps id (\<lambda>w. ret () (case cs of [] \<Rightarrow> w
                         | c # cs' \<Rightarrow> WasmCodeTrackersQueue_add (ce_blockHeight c) cs ss w))"
  by (simp add: keeps_def ret_def WasmCodeTrackersQueue_add_def split: list.splits)

lemma keeps_loadIntoCache: "keeps id (loadIntoCache e a)"
  by (simp add: keeps_def loadIntoCache_def split: sum.splits error.splits)

lemma cachedCodeId_singleton: "stateSingleton (snd (cachedCodeId a w)) = stateSingleton w"
  by (simp add: cachedCodeId_def split: prod.splits)

lemma getCodeId_singleton: "stateSingleton (snd (getCodeId e a w)) = stateSingleton w"
proof -
  obtain r w1 where t: "retry 3 (loadIntoCache e a) w = (r, w1)"
    by (cases "retry 3 (loadIntoCache e a) w")
  have "stateSingleton w1 = stateSingleton w"
    using keepsD [OF keeps_retry [OF keeps_loadIntoCache] t] by simp
  then show ?thesis
    by (simp add: getCodeId_def t cachedCodeId_singleton split: sum.splits)
qed

lemma getCodeIds_singleton: "stateSingleton (snd (getCodeIds e as w)) = stateSingleton w"
proof (induction as arbitrary: w)
  case Nil
  show ?case by simp
next
  case (Cons a as)
  obtain c w1 where g: "getCodeId e a w = (c, w1)" by (cases "getCodeId e a w")
  have "stateSingleton w1 = stateSingleton w"
    using getCodeId_singleton [of e a w] g by simp
  moreover obtain cs w2 where h: "getCodeIds e as w1 = (cs, w2)" by (cases "getCodeIds e as w1")
  ultimately show ?case
    using Cons.IH [of w1] by (simp add: g h)
qed

lemma keeps_getMissingCodeIds: "keeps id (getMissingCodeIds e us cs)"
proof (rule keepsI)
  fix w
  let ?todo = "filter (\<lambda>c. codeId c \<le> 0) cs"
  obtain ids w1 where g: "getCodeIds e (map address ?todo) w = (ids, w1)"
    by (cases "getCodeIds e (map address ?todo) w")
  have 1: "stateSingleton w1 = stateSingleton w"
    using getCodeIds_singleton [of e "map address ?todo" w] g by simp
  have k: "keeps id (bindE (db e (Contract_bulkCreate updateOnDuplicate_codeId
                        (filter (\<lambda>c. codeId c > 0)
                           (map (\<lambda>p. (fst p)\<lparr> codeId := snd p \<rparr>) (zip ?todo ids)))))
               (\<lambda>u. db e (Contract_findAll us)))"
    by (intro keeps_bindE keeps_db_Contract keeps_db_findAll)
  show "stateSingleton (id (snd (getMissingCodeIds e us cs w))) = stateSingleton (id w)"
    using k 1 by (simp add: getMissingCodeIds_def Let_def g keeps_def ret_def)
qed

lemma keeps_inWorld: "keeps id m \<Longrightarrow> keeps snd (inWorld m)"
proof (rule keepsI)
  fix s :: "stateData list \<times> world"
  assume k: "keeps id m"
  obtain r w' where m: "m (snd s) = (r, w')" by (cases "m (snd s)")
  from keepsD [OF k m] show "stateSingleton (snd (snd (inWorld m s))) = stateSingleton (snd s)"
    by (simp add: inWorld_def m)
qed

lemma keeps_export: "keeps snd (exportContractsAndEvents e chainId us)"
  unfolding exportContractsAndEvents_def
  apply (intro keeps_bindE keeps_inWorld keeps_db_Contract keeps_db_findAll
      keeps_getMissingCodeIds keeps_ret)
    apply (simp add: keeps_def)
   apply (simp add: keeps_def)
  apply (rule keepsI)
  apply (simp add: inWorld_def split: prod.splits)
  apply (metis keepsD keeps_db_events id_apply)
  done

lemma keeps_runExport: "keeps snd m \<Longrightarrow> keeps id (runExport m ss)"
  by (auto simp add: keeps_def runExport_def split: prod.splits sum.splits)
     (metis snd_conv)+

lemma keeps_attachContracts: "keeps id (attachContracts e f xs cs)"
proof (induction xs arbitrary: cs)
  case Nil
  show ?case by (simp add: keeps_def)
next
  case (Cons x xs)
  show ?case
  proof (rule keepsI)
    fix w
    show "stateSingleton (id (snd (attachContracts e f (x # xs) cs w))) = stateSingleton (id w)"
    proof (cases "find (\<lambda>c. address c = f x) cs")
      case (Some c)
      obtain r w' where a: "attachContracts e f xs cs w = (r, w')"
        by (cases "attachContracts e f xs cs w")
      from keepsD [OF Cons.IH a] show ?thesis
        by (simp add: Some a split: sum.splits prod.splits)
    next
      case None
      obtain r1 w1 where d: "db e (getContractRow (f x)) w = (r1, w1)"
        by (cases "db e (getContractRow (f x)) w")
      have 1: "stateSingleton w1 = stateSingleton w"
        using keepsD [OF keeps_db_getContractRow d] by simp
      show ?thesis
      proof (cases r1)
        case (Inl err)
        then show ?thesis by (simp add: None d 1)
      next
        case (Inr fetched)
        obtain r w' where a: "attachContracts e f xs
                       (case fetched of None \<Rightarrow> cs | Some c \<Rightarrow> cs @ [c]) w1 = (r, w')"
          by (cases "attachContracts e f xs (case fetched of None \<Rightarrow> cs | Some c \<Rightarrow> cs @ [c]) w1")
        from keepsD [OF Cons.IH a] 1 show ?thesis
          by (simp add: None d Inr a split: sum.splits prod.splits)
      qed
    qed
  qed
qed

lemma keeps_queueWebhooks: "keeps id (queueWebhooks e st evs)"
  by (simp add: queueWebhooks_def Let_def keeps_ret keeps_db_webhooks)

lemma finishes_throw: "finishes need U (throw err)"
  by (simp add: finishes_def throw_def)

lemma finishes_bindE:
  assumes "keeps id m" and "\<And>x. finishes need U (f x)"
  shows "finishes need U (bindE m f)"
  unfolding finishes_def
proof
  fix w
  obtain r w1 where m: "m w = (r, w1)" by (cases "m w")
  have 1: "stateSingleton w1 = stateSingleton w"
    using keepsD [OF assms(1) m] by simp
  show "case bindE m f w of
          (Inl err, w') \<Rightarrow> stateSingleton w' = stateSingleton w
        | (Inr x, w') \<Rightarrow>
            (if need then stateSingleton w \<noteq> None else True) \<and>
            stateSingleton w' = U (stateSingleton w)"
  proof (cases r)
    case (Inl err)
    then show ?thesis by (simp add: bindE_def m 1)
  next
    case (Inr x)
    obtain r2 w2 where f: "f x w1 = (r2, w2)" by (cases "f x w1")
    from assms(2) [of x] have "case (r2, w2) of
          (Inl err, w') \<Rightarrow> stateSingleton w' = stateSingleton w1
        | (Inr x, w') \<Rightarrow>
            (if need then stateSingleton w1 \<noteq> None else True) \<and>
            stateSingleton w' = U (stateSingleton w1)"
      unfolding finishes_def f [symmetric] by (rule spec)
    with 1 show ?thesis
      by (cases r2) (auto simp add: bindE_def m Inr f)
  qed
qed

lemma finishes_getSingleton:
  assumes "\<And>st. finishes False U (f st)"
  shows "finishes True U
           (bindE (db e State_getSingleton)
              (\<lambda>singleton. case singleton of None \<Rightarrow> throw err | Some st \<Rightarrow> f st))"
  unfolding finishes_def
proof
  fix w :: world
  let ?w1 = "w\<lparr> dbCalls := Suc (dbCalls w) \<rparr>"
  show "case bindE (db e State_getSingleton)
               (\<lambda>singleton. case singleton of None \<Rightarrow> throw err | Some st \<Rightarrow> f st) w of
          (Inl err, w') \<Rightarrow> stateSingleton w' = stateSingleton w
        | (Inr x, w') \<Rightarrow>
            (if True then stateSingleton w \<noteq> None else True) \<and>
            stateSingleton w' = U (stateSingleton w)"
  proof (cases "dbFails e (dbCalls w)")
    case (Some err')
    then show ?thesis by (simp add: bindE_def db_def)
  next
    case None
    show ?thesis
    proof (cases "stateSingleton w")
      case n: None
      then show ?thesis by (simp add: bindE_def db_def None State_getSingleton_def throw_def)
    next
      case (Some st)
      obtain r2 w2 where f: "f st ?w1 = (r2, w2)" by (cases "f st ?w1")
      from assms [of st] have "case (r2, w2) of
          (Inl err, w') \<Rightarrow> stateSingleton w' = stateSingleton ?w1
        | (Inr x, w') \<Rightarrow>
            (if False then stateSingleton ?w1 \<noteq> None else True) \<and>
            stateSingleton w' = U (stateSingleton ?w1)"
        unfolding finishes_def f [symmetric] by (rule spec)
      then show ?thesis
        by (cases r2) (simp_all add: bindE_def db_def None State_getSingleton_def Some f)
    qed
  qed
qed

lemma sql_GREATEST_max: "sql_GREATEST col v = max col (Some v)"
  by (cases col) (simp_all add: sql_GREATEST_def max_def)

lemma finishes_update:
  "finishes False (map_option (advanced h t))
     (bindE (db e (State_updateSingleton h t)) (\<lambda>u. ret x))"
proof -
  have "advanced h t =
          (\<lambda>st. st\<lparr> lastWasmBlockHeightExported := sql_GREATEST (lastWasmBlockHeightExported st) h,
                     latestBlockHeight := max (latestBlockHeight st) h,
                     latestBlockTimeUnixMs := max (latestBlockTimeUnixMs st) t \<rparr>)"
    by (rule ext) (simp add: advanced_def sql_GREATEST_max)
  then show ?thesis
    by (simp add: finishes_def bindE_def db_def ret_def State_updateSingleton_def Let_def
        split: option.splits)
qed

text \<open>The last event after the stable sort by height is the last of the events of the
  greatest height.\<close>

lemma last_filter: "xs \<noteq> [] \<Longrightarrow> P (last xs) \<Longrightarrow> last (filter P xs) = last xs"
proof (induction xs)
  case Nil
  then show ?case by simp
next
  case (Cons a xs)
  show ?case
  proof (cases "xs = []")
    case True
    with Cons.prems show ?thesis by simp
  next
    case False
    with Cons.prems have p: "P (last xs)" by simp
    have "last xs \<in> set xs" using False by (rule last_in_set)
    with p have "filter P xs \<noteq> []" by (auto simp add: filter_empty_conv)
    with Cons.IH [OF False p] False show ?thesis by simp
  qed
qed

lemma sorted_le_last:
  fixes f :: "'a \<Rightarrow> int"
  shows "sorted (map f ys) \<Longrightarrow> \<forall>y\<in>set ys. f y \<le> f (last ys)"
  by (induction ys) auto

lemma sort_key_not_Nil: "xs \<noteq> [] \<Longrightarrow> sort_key f xs \<noteq> []"
  by (cases xs) (auto simp add: insort_is_Cons dest: arg_cong [where f = length])

lemma last_sort_key:
  fixes f :: "'a \<Rightarrow> int"
  assumes "xs \<noteq> []"
  shows "last (sort_key f xs) = last (filter (\<lambda>x. f x = Max (f ` set xs)) xs)"
proof -
  let ?ys = "sort_key f xs"
  have ne: "?ys \<noteq> []" using assms by (rule sort_key_not_Nil)
  have "sorted (map f ?ys)" by simp
  then have le: "\<forall>y\<in>set ?ys. f y \<le> f (last ?ys)"
    by (rule sorted_le_last)
  have "last ?ys \<in> set ?ys" using ne by (rule last_in_set)
  then have mem: "f (last ?ys) \<in> f ` set xs" by simp
  have fl: "f (last ?ys) = Max (f ` set xs)"
  proof (rule sym, rule Max_eqI)
    show "finite (f ` set xs)" by simp
    show "\<And>y. y \<in> f ` set xs \<Longrightarrow> y \<le> f (last ?ys)" using le by auto
    show "f (last ?ys) \<in> f ` set xs" by (rule mem)
  qed
  have "last ?ys = last (filter (\<lambda>x. f x = Max (f ` set xs)) ?ys)"
    using ne fl by (simp add: last_filter)
  also have "filter (\<lambda>x. f x = Max (f ` set xs)) ?ys = filter (\<lambda>x. f x = Max (f ` set xs)) xs"
    by (rule sort_key_stable)
  finally show ?thesis .
qed

lemma storeLastBlock_eq:
  assumes "events \<noteq> []"
  shows "storeLastBlock e events =
           db e (State_updateSingleton (Max (ev_blockHeight ` set events))
                   (ev_blockTimeUnixMs
                      (last (filter (\<lambda>ev. ev_blockHeight ev = Max (ev_blockHeight ` set events))
                               events))))"
proof -
  let ?ys = "sort_key ev_blockHeight events"
  have ne: "?ys \<noteq> []" using assms by (rule sort_key_not_Nil)
  then obtain l others where r: "rev ?ys = l # others"
    by (cases "rev ?ys") auto
  then have "?ys = rev others @ [l]"
    by (simp add: rev_eq_Cons_iff)
  then have l: "l = last ?ys"
    by simp
  have h: "ev_blockHeight (last ?ys) = Max (ev_blockHeight ` set events)"
  proof -
    have "last ?ys = last (filter (\<lambda>x. ev_blockHeight x = Max (ev_blockHeight ` set events)) events)"
      by (rule last_sort_key [OF assms])
    moreover have "filter (\<lambda>x. ev_blockHeight x = Max (ev_blockHeight ` set events)) events \<noteq> []"
    proof -
      have "Max (ev_blockHeight ` set events) \<in> ev_blockHeight ` set events"
        using assms by (intro Max_in) auto
      then show ?thesis by (auto simp add: filter_empty_conv)
    qed
    ultimately show ?thesis
      using last_in_set [of "filter (\<lambda>x. ev_blockHeight x = Max (ev_blockHeight ` set events)) events"]
      by auto
  qed
  then have "ev_blockHeight l = Max (ev_blockHeight ` set events)"
    by (simp add: l)
  moreover have "l = last (filter (\<lambda>ev. ev_blockHeight ev = Max (ev_blockHeight ` set events)) events)"
    by (simp add: l last_sort_key [OF assms])
  ultimately show ?thesis
    by (simp add: storeLastBlock_def r)
qed

lemmas keeps_steps =
  keeps_db_Block keeps_db_Contract keeps_db_findAll keeps_db_getContractRow keeps_db_events
  keeps_db_getSingleton keeps_db_webhooks keeps_db_transform keeps_tracker keeps_ret keeps_throw
  keeps_if keeps_retry keeps_runExport keeps_export keeps_attachContracts keeps_queueWebhooks

lemma stateEvents_events: "stateEventsOf events \<noteq> [] \<Longrightarrow> events \<noteq> []"
  by (auto simp add: stateEventsOf_def)

lemma process_finishes:
  assumes "stateEventsOf events \<noteq> []"
  shows "finishes True
           (map_option
              (advanced (Max (ev_blockHeight ` set events))
                 (ev_blockTimeUnixMs
                    (last (filter (\<lambda>ev. ev_blockHeight ev = Max (ev_blockHeight ` set events))
                             events)))))
           (process e chainId events)"
  unfolding process_def Let_def storeLastBlock_eq [OF stateEvents_events [OF assms]]
  using assms
  by (simp only: if_False)
     (intro finishes_bindE finishes_getSingleton finishes_update keeps_steps)

lemma process_keeps:
  assumes "stateEventsOf events = []"
  shows "keeps id (process e chainId events)"
  unfolding process_def Let_def
  using assms
  by (simp only: if_True refl) (intro keeps_bindE keeps_steps)

subsection \<open>Three batches\<close>

lemmas process_defs =
  process_def bindE_def ret_def throw_def db_def retry_def runExport_def inWorld_def
  exportContractsAndEvents_def getMissingCodeIds_def getCodeId_def cachedCodeId_def
  loadIntoCache_def lru_has_def lru_get_def lru_set_def lru_max_def
  Block_createMany_def Contract_bulkCreate_def Contract_findAll_def getContractRow_def
  WasmStateEvent_bulkCreate_def State_getSingleton_def State_updateSingleton_def sql_GREATEST_def
  WasmCodeTrackersQueue_add_def AccountWebhook_queueWebhooks_def upsertContract_def
  upsertEvent_def updateOnDuplicate_info_def updateOnDuplicate_codeId_def ignoreDuplicates_def
  uniq_def blockRows_def contractRow_def contractEventsOf_def stateEventsOf_def
  ev_blockHeight_def ev_blockTimeUnixMs_def backfillRow_def filterStateEvents_def
  keepStateEvent_def allowlist_def stateEventAllowlist_def CONTRACT_STATE_EVENT_KEY_ALLOWLIST_def
  addCodeId_def queueWebhooks_def storeLastBlock_def



lemma run_unsorted:
  "map instantiatedAtBlockHeight
     (contracts (snd (process (example_env (\<lambda>n a. Inr 7)) ''juno-1''
        [StateEvent ''state:105:juno1a:1'' (example_state_event ''juno1a'' 105 ''1''),
         StateEvent ''state:103:juno1a:1'' (example_state_event ''juno1a'' 103 ''1'')]
        example_world))) = [105]"
  by (simp add: process_defs example_env_def example_world_def
      example_state_event_def Let_def numeral_3_eq_3)

subsection \<open>The watermark\<close>




text \<open>
  Claim C3. For every run of \<open>process\<close>, whether it returns or throws,
  \<open>lastWasmBlockHeightExported\<close> of the State row after the run is greater than or equal to
  its value before (with null below every height); \<open>process\<close> neither creates nor deletes
  the row.
\<close>

theorem watermark_never_decreases:
  "rel_option
     (\<lambda>st st'. lastWasmBlockHeightExported st \<le> lastWasmBlockHeightExported st')
     (stateSingleton w) (stateSingleton (snd (process e chainId events w)))"
proof (cases "stateEventsOf events = []")
  case True
  have "stateSingleton (snd (process e chainId events w)) = stateSingleton w"
    using process_keeps [OF True, of e chainId] by (simp add: keeps_def)
  then show ?thesis
    by (simp add: option.rel_refl)
next
  case False
  let ?H = "Max (ev_blockHeight ` set events)"
  let ?T = "ev_blockTimeUnixMs (last (filter (\<lambda>ev. ev_blockHeight ev = ?H) events))"
  obtain r w' where run: "process e chainId events w = (r, w')"
    by (cases "process e chainId events w")
  have "finishes True (map_option (advanced ?H ?T)) (process e chainId events)"
    by (rule process_finishes [OF False])
  then have "case (r, w') of
          (Inl err, w') \<Rightarrow> stateSingleton w' = stateSingleton w
        | (Inr x, w') \<Rightarrow>
            (if True then stateSingleton w \<noteq> None else True) \<and>
            stateSingleton w' = map_option (advanced ?H ?T) (stateSingleton w)"
    unfolding finishes_def run [symmetric] by (rule spec)
  then have "stateSingleton w' = stateSingleton w \<or>
             stateSingleton w' = map_option (advanced ?H ?T) (stateSingleton w)"
    by (cases r) simp_all
  then show ?thesis
  proof
    assume "stateSingleton w' = stateSingleton w"
    then show ?thesis by (simp add: run option.rel_refl)
  next
    assume "stateSingleton w' = map_option (advanced ?H ?T) (stateSingleton w)"
    then show ?thesis
      by (cases "stateSingleton w") (simp_all add: run advanced_def)
  qed
qed

text \<open>The batch of one state event at height 101.\<close>

theorem watermark_never_decreases_witness:
  "rel_option
     (\<lambda>st st'. lastWasmBlockHeightExported st \<le> lastWasmBlockHeightExported st')
     (stateSingleton example_world)
     (stateSingleton (snd (process (example_env (\<lambda>n a. Inr 7)) ''juno-1''
        [StateEvent ''state:101:juno1a:1,2,3'' (example_state_event ''juno1a'' 101 ''1,2,3'')]
        example_world)))"
  by (rule watermark_never_decreases)

subsection \<open>The contract existence back-fill\<close>

lemma set_uniq_fold:
  "set (fold (\<lambda>x acc. if x \<in> set acc then acc else acc @ [x]) xs acc) = set xs \<union> set acc"
  by (induction xs arbitrary: acc) auto

lemma set_uniq [simp]: "set (uniq xs) = set xs"
  by (simp add: uniq_def set_uniq_fold)

lemma mapE_backfillRow:
  assumes "set as \<subseteq> se_contractAddress ` set stateEvents"
  shows "\<exists>rows. mapE (backfillRow stateEvents) as = Inr rows \<and>
           map address rows = as \<and>
           (\<forall>r\<in>set rows. backfillRow stateEvents (address r) = Inr r)"
  using assms
proof (induction as)
  case Nil
  then show ?case by simp
next
  case (Cons a as)
  then obtain rows where rows: "mapE (backfillRow stateEvents) as = Inr rows"
      "map address rows = as" "\<forall>r\<in>set rows. backfillRow stateEvents (address r) = Inr r"
    by auto
  from Cons.prems obtain ev where "find (\<lambda>ev. se_contractAddress ev = a) stateEvents = Some ev"
    by (cases "find (\<lambda>ev. se_contractAddress ev = a) stateEvents") (auto simp add: find_None_iff)
  then obtain r where r: "backfillRow stateEvents a = Inr r" "address r = a"
    by (simp add: backfillRow_def)
  with rows show ?case by auto
qed

lemma find_upsert_ignore:
  "find (\<lambda>c. address c = a) (upsertContract ignoreDuplicates row tab) =
     (case find (\<lambda>c. address c = a) tab of
        Some c \<Rightarrow> Some c
      | None \<Rightarrow> if address row = a then Some row else None)"
proof (cases "list_ex (\<lambda>r. address r = address row) tab")
  case True
  have "map (\<lambda>r. if address r = address row then ignoreDuplicates r row else r) tab = tab"
    by (induction tab) (simp_all add: ignoreDuplicates_def)
  with True show ?thesis
    by (auto simp add: upsertContract_def list_ex_iff find_None_iff split: option.splits)
next
  case False
  then show ?thesis
    by (induction tab) (auto simp add: upsertContract_def list_ex_iff split: option.splits)
qed

lemma find_bulkCreate_ignore:
  "find (\<lambda>c. address c = a) (fold (upsertContract ignoreDuplicates) rows tab) =
     (case find (\<lambda>c. address c = a) tab of
        Some c \<Rightarrow> Some c
      | None \<Rightarrow> find (\<lambda>r. address r = a) rows)"
  by (induction rows arbitrary: tab) (auto simp add: find_upsert_ignore split: option.splits)

lemma find_first_sorted:
  "sorted (map h xs) \<Longrightarrow> find P xs = Some x \<Longrightarrow> \<forall>y\<in>set xs. P y \<longrightarrow> h x \<le> h y"
  by (induction xs) (auto split: if_splits)

text \<open>
  Claim C9, as amended. For every contract address that appears in the state events of the
  batch and has no Contract row, the row inserted by the existence back-fill has code ID 0,
  no admin, creator or label, and the instantiation height, time and timestamp of the first
  event of that address in the order of the batch list; when the state events of the batch
  are in ascending order of block height, that event has the smallest block height of the
  address in the batch.
\<close>

theorem backfill_first_event:
  assumes appears: "a \<in> se_contractAddress ` set stateEvents"
      and norow: "find (\<lambda>c. address c = a) (contracts w) = None"
  shows "\<exists>ev rows.
           find (\<lambda>ev. se_contractAddress ev = a) stateEvents = Some ev \<and>
           mapE (backfillRow stateEvents) (uniq (map se_contractAddress stateEvents)) = Inr rows \<and>
           find (\<lambda>c. address c = a)
             (contracts (snd (Contract_bulkCreate ignoreDuplicates rows w)))
             = Some \<lparr> address = a, codeId = 0, admin = None, creator = None, label = None,
                      instantiatedAtBlockHeight = se_blockHeight ev,
                      instantiatedAtBlockTimeUnixMs = se_blockTimeUnixMs ev,
                      instantiatedAtBlockTimestamp = Date (se_blockTimeUnixMs ev) \<rparr> \<and>
           (sorted (map se_blockHeight stateEvents) \<longrightarrow>
              (\<forall>ev'\<in>set stateEvents. se_contractAddress ev' = a \<longrightarrow>
                                     se_blockHeight ev \<le> se_blockHeight ev'))"
proof -
  from appears obtain ev where ev: "find (\<lambda>ev. se_contractAddress ev = a) stateEvents = Some ev"
    by (cases "find (\<lambda>ev. se_contractAddress ev = a) stateEvents") (auto simp add: find_None_iff)
  obtain rows where rows: "mapE (backfillRow stateEvents) (uniq (map se_contractAddress stateEvents))
                             = Inr rows"
      and addrs: "map address rows = uniq (map se_contractAddress stateEvents)"
      and each: "\<forall>r\<in>set rows. backfillRow stateEvents (address r) = Inr r"
    using mapE_backfillRow [of "uniq (map se_contractAddress stateEvents)" stateEvents] by auto
  have "a \<in> set (map address rows)"
    using appears by (simp add: addrs)
  then obtain r where r: "find (\<lambda>r. address r = a) rows = Some r"
    by (cases "find (\<lambda>r. address r = a) rows") (auto simp add: find_None_iff)
  then have "r \<in> set rows" "address r = a"
    by (auto simp add: find_Some_iff)
  with each have "backfillRow stateEvents a = Inr r"
    by auto
  with ev have "r = \<lparr> address = a, codeId = 0, admin = None, creator = None, label = None,
                      instantiatedAtBlockHeight = se_blockHeight ev,
                      instantiatedAtBlockTimeUnixMs = se_blockTimeUnixMs ev,
                      instantiatedAtBlockTimestamp = Date (se_blockTimeUnixMs ev) \<rparr>"
    by (simp add: backfillRow_def)
  with r norow have "find (\<lambda>c. address c = a)
             (contracts (snd (Contract_bulkCreate ignoreDuplicates rows w)))
             = Some \<lparr> address = a, codeId = 0, admin = None, creator = None, label = None,
                      instantiatedAtBlockHeight = se_blockHeight ev,
                      instantiatedAtBlockTimeUnixMs = se_blockTimeUnixMs ev,
                      instantiatedAtBlockTimestamp = Date (se_blockTimeUnixMs ev) \<rparr>"
    by (simp add: Contract_bulkCreate_def find_bulkCreate_ignore)
  moreover have "sorted (map se_blockHeight stateEvents) \<longrightarrow>
              (\<forall>ev'\<in>set stateEvents. se_contractAddress ev' = a \<longrightarrow>
                                     se_blockHeight ev \<le> se_blockHeight ev')"
    using find_first_sorted [of se_blockHeight stateEvents "\<lambda>ev. se_contractAddress ev = a" ev] ev
    by blast
  ultimately show ?thesis
    using ev rows by blast
qed

text \<open>Three state events at heights 101, 102, 103, the first and the last of one address.\<close>

theorem backfill_first_event_witness:
  "find (\<lambda>c. address c = ''juno1a'')
     (contracts (snd (Contract_bulkCreate ignoreDuplicates
        [\<lparr> address = ''juno1a'', codeId = 0, admin = None, creator = None, label = None,
           instantiatedAtBlockHeight = 101, instantiatedAtBlockTimeUnixMs = 1700000006000,
           instantiatedAtBlockTimestamp = Date 1700000006000 \<rparr>,
         \<lparr> address = ''juno1b'', codeId = 0, admin = None, creator = None, label = None,
           instantiatedAtBlockHeight = 102, instantiatedAtBlockTimeUnixMs = 1700000012000,
           instantiatedAtBlockTimestamp = Date 1700000012000 \<rparr>]
        example_world)))
   = Some \<lparr> address = ''juno1a'', codeId = 0, admin = None, creator = None, label = None,
            instantiatedAtBlockHeight = 101, instantiatedAtBlockTimeUnixMs = 1700000006000,
            instantiatedAtBlockTimestamp = Date 1700000006000 \<rparr>"
proof -
  let ?evs = "[example_state_event ''juno1a'' 101 ''1'', example_state_event ''juno1b'' 102 ''1'',
               example_state_event ''juno1a'' 103 ''2'']"
  have 1: "''juno1a'' \<in> se_contractAddress ` set ?evs"
    by (simp add: example_state_event_def)
  have 2: "find (\<lambda>c. address c = ''juno1a'') (contracts example_world) = None"
    by (simp add: example_world_def)
  have 3: "mapE (backfillRow ?evs) (uniq (map se_contractAddress ?evs)) =
     Inr [\<lparr> address = ''juno1a'', codeId = 0, admin = None, creator = None, label = None,
           instantiatedAtBlockHeight = 101, instantiatedAtBlockTimeUnixMs = 1700000006000,
           instantiatedAtBlockTimestamp = Date 1700000006000 \<rparr>,
         \<lparr> address = ''juno1b'', codeId = 0, admin = None, creator = None, label = None,
           instantiatedAtBlockHeight = 102, instantiatedAtBlockTimeUnixMs = 1700000012000,
           instantiatedAtBlockTimestamp = Date 1700000012000 \<rparr>]"
    by (simp add: uniq_def backfillRow_def example_state_event_def)
  have 4: "find (\<lambda>ev. se_contractAddress ev = ''juno1a'') ?evs
             = Some (example_state_event ''juno1a'' 101 ''1'')"
    by (simp add: example_state_event_def)
  show ?thesis
    using backfill_first_event [OF 1 2] unfolding 3 4
    by (simp add: example_state_event_def)
qed

text \<open>
  Claim C9 as stated fails on a batch that is not sorted: for the events of one address at
  heights 105 and 103, in that order, the row gets the instantiation height 105, and the
  smallest height of the address in the batch is 103. So does the row that \<open>process\<close>
  leaves in the table.
\<close>

theorem backfill_unsorted_counterexample:
  "mapE (backfillRow [example_state_event ''juno1a'' 105 ''1'', example_state_event ''juno1a'' 103 ''1''])
        (uniq (map se_contractAddress
           [example_state_event ''juno1a'' 105 ''1'', example_state_event ''juno1a'' 103 ''1'']))
     = Inr [\<lparr> address = ''juno1a'', codeId = 0, admin = None, creator = None, label = None,
              instantiatedAtBlockHeight = 105, instantiatedAtBlockTimeUnixMs = 1700000030000,
              instantiatedAtBlockTimestamp = Date 1700000030000 \<rparr>] \<and>
   contracts (snd (Contract_bulkCreate ignoreDuplicates
        [\<lparr> address = ''juno1a'', codeId = 0, admin = None, creator = None, label = None,
           instantiatedAtBlockHeight = 105, instantiatedAtBlockTimeUnixMs = 1700000030000,
           instantiatedAtBlockTimestamp = Date 1700000030000 \<rparr>]
        example_world))
     = [\<lparr> address = ''juno1a'', codeId = 0, admin = None, creator = None, label = None,
          instantiatedAtBlockHeight = 105, instantiatedAtBlockTimeUnixMs = 1700000030000,
          instantiatedAtBlockTimestamp = Date 1700000030000 \<rparr>] \<and>
   Min (se_blockHeight `
          set [example_state_event ''juno1a'' 105 ''1'', example_state_event ''juno1a'' 103 ''1''])
     = 103 \<and>
   map instantiatedAtBlockHeight
     (contracts (snd (process (example_env (\<lambda>n a. Inr 7)) ''juno-1''
        [StateEvent ''state:105:juno1a:1'' (example_state_event ''juno1a'' 105 ''1''),
         StateEvent ''state:103:juno1a:1'' (example_state_event ''juno1a'' 103 ''1'')]
        example_world))) = [105]"
  by (simp add: run_unsorted)
     (simp add: uniq_def backfillRow_def example_state_event_def Contract_bulkCreate_def
      upsertContract_def example_world_def)

end
